theory Spec2Isabelle
  imports Complex_Main "HOL-Library.Word" "HOL-Library.AList"
begin

section \<open>Values of the JSON library\<close>

text \<open>
  The vector store talks JSON through \<open>nlohmann::json\<close>. A JSON value is one of the
  library's value kinds; integers are kept in 64 bits (\<open>number_integer\<close> is signed,
  \<open>number_unsigned\<close> is what the parser produces for a non-negative literal).
  The type parameter \<open>'d\<close> stands for the values of a C++ \<open>double\<close>. A \<open>float\<close> is
  carried as the \<open>double\<close> it widens to, which is exact, so no floating-point
  arithmetic is needed anywhere in the model. An object and a \<open>std::map\<close> are
  association lists with unique keys; \<open>m[k] = v\<close> is \<open>AList.update k v m\<close>. The C++
  containers keep their entries sorted by key; nothing here reads the order of a list.
\<close>

datatype 'd json =
    JNull
  | JBool bool
  | JInteger "64 word"
  | JUnsigned "64 word"
  | JFloat 'd
  | JString string
  | JArray "'d json list"
  | JObject "(string \<times> 'd json) list"

text \<open>
  What can end a call other than a return: an exception of the JSON library, a
  \<open>std::runtime_error\<close>, or an out-of-range read of a \<open>std::vector\<close> (the library's
  \<open>const operator[]\<close> does not check the index).
\<close>

datatype exn =
    json_exception (what: string)
  | runtime_error (what: string)
  | undefined_behaviour

fun type_name :: "'d json \<Rightarrow> string" where
  "type_name JNull = ''null''"
| "type_name (JObject _) = ''object''"
| "type_name (JArray _) = ''array''"
| "type_name (JString _) = ''string''"
| "type_name (JBool _) = ''boolean''"
| "type_name _ = ''number''"

fun is_null :: "'d json \<Rightarrow> bool" where
  "is_null JNull = True"
| "is_null _ = False"

fun is_string :: "'d json \<Rightarrow> bool" where
  "is_string (JString _) = True"
| "is_string _ = False"

fun is_array :: "'d json \<Rightarrow> bool" where
  "is_array (JArray _) = True"
| "is_array _ = False"

fun is_object :: "'d json \<Rightarrow> bool" where
  "is_object (JObject _) = True"
| "is_object _ = False"

fun is_number_integer :: "'d json \<Rightarrow> bool" where
  "is_number_integer (JInteger _) = True"
| "is_number_integer (JUnsigned _) = True"
| "is_number_integer _ = False"

fun is_number_float :: "'d json \<Rightarrow> bool" where
  "is_number_float (JFloat _) = True"
| "is_number_float _ = False"

fun is_boolean :: "'d json \<Rightarrow> bool" where
  "is_boolean (JBool _) = True"
| "is_boolean _ = False"

text \<open>\<open>size()\<close>: 0 for null, the number of elements of an array or object, 1 otherwise.\<close>

fun json_size :: "'d json \<Rightarrow> nat" where
  "json_size JNull = 0"
| "json_size (JArray xs) = length xs"
| "json_size (JObject kvs) = length kvs"
| "json_size _ = 1"

definition json_empty :: "'d json \<Rightarrow> bool" where
  "json_empty j = (json_size j = 0)"

text \<open>\<open>contains(key)\<close>: only an object contains a key.\<close>

fun contains :: "'d json \<Rightarrow> string \<Rightarrow> bool" where
  "contains (JObject kvs) key = (map_of kvs key \<noteq> None)"
| "contains _ key = False"

text \<open>
  \<open>j[key]\<close>. The source reads a key only after \<open>contains(key)\<close> has held for it, on
  an object that has the key; this is the member. The other cases, where the library
  would insert a null or throw, are never reached, and are given null.
\<close>

fun at_key :: "'d json \<Rightarrow> string \<Rightarrow> 'd json" where
  "at_key (JObject kvs) key = (case map_of kvs key of Some v \<Rightarrow> v | None \<Rightarrow> JNull)"
| "at_key j key = JNull"

text \<open>
  \<open>j[0]\<close> where the source has checked before that \<open>j\<close> is an array and is not
  empty, and \<open>j[i]\<close> where it has checked that \<open>j\<close> is an array of more than \<open>i\<close>
  elements: the element. The cases that the checks exclude are given null.
\<close>

fun checked_at :: "'d json \<Rightarrow> nat \<Rightarrow> 'd json" where
  "checked_at (JArray xs) i = (if i < length xs then xs ! i else JNull)"
| "checked_at j i = JNull"

text \<open>
  \<open>j[i]\<close> on a const value with no check before it: the element of an array, unchecked (reading past the end
  is undefined behaviour); a type error on anything that is not an array.
\<close>

fun at_index :: "'d json \<Rightarrow> nat \<Rightarrow> exn + 'd json" where
  "at_index (JArray xs) i = (if i < length xs then Inr (xs ! i) else Inl undefined_behaviour)"
| "at_index j i = Inl (json_exception
     (''[json.exception.type_error.305] cannot use operator[] with a numeric argument with ''
      @ type_name j))"

definition bind_exn :: "exn + 'a \<Rightarrow> ('a \<Rightarrow> exn + 'b) \<Rightarrow> exn + 'b" where
  "bind_exn m f = (case m of Inl e \<Rightarrow> Inl e | Inr x \<Rightarrow> f x)"

fun mapM_exn :: "('a \<Rightarrow> exn + 'b) \<Rightarrow> 'a list \<Rightarrow> exn + 'b list" where
  "mapM_exn f [] = Inr []"
| "mapM_exn f (x # xs) =
     bind_exn (f x) (\<lambda>y. bind_exn (mapM_exn f xs) (\<lambda>ys. Inr (y # ys)))"

text \<open>
  The conversions between numbers that the library applies when a value is read as
  \<open>double\<close> or \<open>float\<close> are those of the C++ casts. They round, so they are
  parameters: \<open>double_of_int\<close> is \<open>static_cast<double>\<close> of an integer,
  \<open>float_of_int\<close> is \<open>static_cast<float>\<close> of an integer and \<open>float_of_double\<close> is
  \<open>static_cast<float>\<close> of a \<open>double\<close>.
\<close>

record 'd casts =
  double_of_int :: "int \<Rightarrow> 'd"
  float_of_int :: "int \<Rightarrow> 'd"
  float_of_double :: "'d \<Rightarrow> 'd"

definition type_must_be :: "string \<Rightarrow> 'd json \<Rightarrow> exn" where
  "type_must_be t j = json_exception
     (''[json.exception.type_error.302] type must be '' @ t @ '', but is '' @ type_name j)"

text \<open>\<open>get<std::string>()\<close>\<close>

fun get_string :: "'d json \<Rightarrow> exn + string" where
  "get_string (JString s) = Inr s"
| "get_string j = Inl (type_must_be ''string'' j)"

text \<open>\<open>get<double>()\<close>: any of the three number kinds, nothing else.\<close>

fun get_double :: "'d casts \<Rightarrow> 'd json \<Rightarrow> exn + 'd" where
  "get_double c (JUnsigned n) = Inr (double_of_int c (uint n))"
| "get_double c (JInteger n) = Inr (double_of_int c (sint n))"
| "get_double c (JFloat d) = Inr d"
| "get_double c j = Inl (type_must_be ''number'' j)"

text \<open>\<open>get<float>()\<close>: the numbers and, for this target type, a boolean as 0 or 1.\<close>

fun get_float :: "'d casts \<Rightarrow> 'd json \<Rightarrow> exn + 'd" where
  "get_float c (JUnsigned n) = Inr (float_of_int c (uint n))"
| "get_float c (JInteger n) = Inr (float_of_int c (sint n))"
| "get_float c (JFloat d) = Inr (float_of_double c d)"
| "get_float c (JBool b) = Inr (float_of_int c (if b then 1 else 0))"
| "get_float c j = Inl (type_must_be ''number'' j)"

text \<open>\<open>get<std::vector<std::string>>()\<close> and \<open>get<std::vector<float>>()\<close>\<close>

fun get_vector_string :: "'d json \<Rightarrow> exn + string list" where
  "get_vector_string (JArray xs) = mapM_exn get_string xs"
| "get_vector_string j = Inl (type_must_be ''array'' j)"

fun get_vector_float :: "'d casts \<Rightarrow> 'd json \<Rightarrow> exn + 'd list" where
  "get_vector_float c (JArray xs) = mapM_exn (get_float c) xs"
| "get_vector_float c j = Inl (type_must_be ''array'' j)"

section \<open>The payload codec\<close>

text \<open>
  The four scalar kinds of the specification's dynamic value, each with its value: a
  string, an integer of any width as the number it stands for, a floating point number,
  a boolean.
\<close>

datatype 'd scalar = SString string | SInteger int | SFloat 'd | SBoolean bool

text \<open>
  A payload is a \<open>std::map<std::string, std::any>\<close>. The held type of a \<open>std::any\<close>
  is one of those \<open>any_to_json\<close> tests for, or some other type (\<open>AnyOther\<close>). Of a
  value of another type the function reads the name of the type only; the model keeps
  with it the scalar that the value is, where it is one: an \<open>unsigned int\<close>, a \<open>short\<close>
  or a \<open>long double\<close> is an integer or a floating point number for the specification
  although \<open>any_to_json\<close> has no test for its type. \<open>long\<close> and \<open>long long\<close> are 64 bits
  wide, \<open>int\<close> is 32.
\<close>

datatype 'd std_any =
    AnyEmpty
  | AnyString string
  | AnyInt "32 word"
  | AnyLong "64 word"
  | AnyLongLong "64 word"
  | AnyFloat 'd
  | AnyDouble 'd
  | AnyBool bool
  | AnyCStr string
  | AnyOther string "'d scalar option"

fun any_to_json :: "'d std_any \<Rightarrow> 'd json" where
  "any_to_json AnyEmpty = JNull"
| "any_to_json (AnyString s) = JString s"
| "any_to_json (AnyInt n) = JInteger (scast n)"
| "any_to_json (AnyLong n) = JInteger n"
| "any_to_json (AnyLongLong n) = JInteger n"
| "any_to_json (AnyFloat x) = JFloat x"
| "any_to_json (AnyDouble x) = JFloat x"
| "any_to_json (AnyBool b) = JBool b"
| "any_to_json (AnyCStr s) = JString s"
| "any_to_json (AnyOther t content) = JNull"

text \<open>The held types that \<open>any_to_json\<close> tests for.\<close>

fun tested_type :: "'d std_any \<Rightarrow> bool" where
  "tested_type AnyEmpty = False"
| "tested_type (AnyOther t content) = False"
| "tested_type v = True"

type_synonym 'd payload = "(string \<times> 'd std_any) list"

definition serialize_payload :: "'d payload \<Rightarrow> (string \<times> 'd json) list" where
  "serialize_payload payload =
     fold (\<lambda>pair json_payload. AList.update (fst pair) (any_to_json (snd pair)) json_payload)
       payload []"

text \<open>
  One turn of the loop of \<open>deserialize_payload\<close>: the tests in the order of the source;
  null, arrays and objects leave the payload as it is.
\<close>

fun deserialize_entry :: "string \<times> 'd json \<Rightarrow> 'd payload \<Rightarrow> 'd payload" where
  "deserialize_entry (key, JString s) payload = AList.update key (AnyString s) payload"
| "deserialize_entry (key, JInteger n) payload = AList.update key (AnyLongLong n) payload"
| "deserialize_entry (key, JUnsigned n) payload = AList.update key (AnyLongLong n) payload"
| "deserialize_entry (key, JFloat x) payload = AList.update key (AnyDouble x) payload"
| "deserialize_entry (key, JBool b) payload = AList.update key (AnyBool b) payload"
| "deserialize_entry (key, _) payload = payload"

fun deserialize_payload :: "'d json \<Rightarrow> 'd payload" where
  "deserialize_payload (JObject kvs) = fold deserialize_entry kvs []"
| "deserialize_payload _ = []"


section \<open>The HTTP client\<close>

text \<open>
  The fields of \<open>ChromaVectorStore\<close>. The \<open>int\<close> values of the class (port, dimension,
  HTTP status, limit) are only copied and compared, never computed with, and are
  integers here. The fields are named without the trailing underscore of the source.
\<close>

record ChromaVectorStore =
  host :: string
  port :: int
  collection_name :: string
  embedding_dims :: "int option"

text \<open>
  What a request puts on the wire: no body (\<open>Get\<close>, \<open>Delete\<close> without a body), the
  empty string, or the dump of a JSON value.
\<close>

datatype 'd content = NoContent | EmptyContent | Dump "'d json"

record 'd http_request =
  req_host :: string
  req_port :: int
  req_method :: string
  req_path :: string
  req_content :: "'d content"

text \<open>
  An \<open>httplib::Result\<close>: no response, with the text of \<open>httplib::to_string(res.error())\<close>,
  or a response with its status and body.
\<close>

datatype http_result = Failed string | Response int string

text \<open>
  The world outside the code: \<open>parse\<close> is \<open>nlohmann::json::parse\<close>, which returns a
  value or throws a parse error with the given \<open>what()\<close>; \<open>server\<close> is the remote
  service seen through \<open>httplib\<close>, which answers the last request of the list of all
  requests sent so far; \<open>conv\<close> are the casts.
\<close>

record 'd env =
  parse :: "string \<Rightarrow> string + 'd json"
  server :: "'d http_request list \<Rightarrow> http_result"
  conv :: "'d casts"

text \<open>The state: the object, and the requests sent so far.\<close>

record 'd world =
  self :: ChromaVectorStore
  sent :: "'d http_request list"

definition send :: "'d env \<Rightarrow> string \<Rightarrow> string \<Rightarrow> 'd content \<Rightarrow> 'd world
    \<Rightarrow> http_result \<times> 'd world" where
  "send env method path c w =
     (let sent' = sent w @ [\<lparr>req_host = host (self w), req_port = port (self w),
                             req_method = method, req_path = path, req_content = c\<rparr>]
      in (server env sent', w\<lparr>sent := sent'\<rparr>))"

definition make_request :: "'d env \<Rightarrow> string \<Rightarrow> string \<Rightarrow> 'd json \<Rightarrow> 'd world
    \<Rightarrow> http_result \<times> 'd world" where
  "make_request env method path body w =
     (if method = ''POST'' then
        (if is_null body then send env method path EmptyContent w
         else send env method path (Dump body) w)
      else if method = ''GET'' then send env method path NoContent w
      else if method = ''DELETE'' then
        (if is_null body then send env method path NoContent w
         else send env method path (Dump body) w)
      else (Failed ''Unknown'', w))"

text \<open>\<open>std::to_string\<close> of an \<open>int\<close>\<close>

fun digits :: "nat \<Rightarrow> string" where
  "digits n = (if n < 10 then [''0123456789'' ! n]
               else digits (n div 10) @ [''0123456789'' ! (n mod 10)])"

definition to_string :: "int \<Rightarrow> string" where
  "to_string i = (if i < 0 then CHR ''-'' # digits (nat (- i)) else digits (nat i))"

text \<open>
  The tail of every failure message: the status and the body of the response when
  there is one, the transport error otherwise.
\<close>

fun failure_details :: "http_result \<Rightarrow> string" where
  "failure_details (Response status body) =
     ''Status: '' @ to_string status @ '', Body: '' @ body"
| "failure_details (Failed e) = ''Request Error: '' @ e"

text \<open>\<open>!res || (res->status is none of the accepted codes)\<close>\<close>

fun rejected :: "int list \<Rightarrow> http_result \<Rightarrow> bool" where
  "rejected accepted (Failed e) = True"
| "rejected accepted (Response status body) = (status \<notin> set accepted)"

fun response_body :: "http_result \<Rightarrow> string" where
  "response_body (Response status body) = body"
| "response_body (Failed e) = ''N/A''"

text \<open>
  \<open>try { ... } catch (const nlohmann::json::exception& e)\<close>: an exception of the JSON
  library leaves as a \<open>std::runtime_error\<close> that holds \<open>e.what()\<close> and the body; nothing
  else is caught.
\<close>

definition parse_json :: "'d env \<Rightarrow> string \<Rightarrow> exn + 'd json" where
  "parse_json env text = (case parse env text of Inl msg \<Rightarrow> Inl (json_exception msg)
                          | Inr j \<Rightarrow> Inr j)"

fun catch_json_exception :: "string \<Rightarrow> string \<Rightarrow> exn + 'a \<Rightarrow> exn + 'a" where
  "catch_json_exception prefix body (Inl (json_exception msg)) =
     Inl (runtime_error (prefix @ msg @ ''. Body: '' @ body))"
| "catch_json_exception prefix body r = r"


section \<open>The operations of the Chroma vector store\<close>

text \<open>
  Every operation takes the world and returns its result, a value or what it threw,
  with the world after it. Writing to \<open>std::cout\<close> and \<open>std::cerr\<close> is left out.
\<close>

definition quote :: string where
  "quote = [CHR 0x27]"

definition create_collection :: "'d env \<Rightarrow> string \<Rightarrow> int \<Rightarrow> string \<Rightarrow> 'd world
    \<Rightarrow> (exn + unit) \<times> 'd world" where
  "create_collection env name vector_size distance_metric w =
     (let api_path = ''/api/v1/collections'';
          body = (if distance_metric = ''cosine'' \<or> distance_metric = ''ip''
                     \<or> distance_metric = ''l2''
                  then JObject [(''name'', JString name),
                                (''metadata'', JObject [(''hnsw:space'', JString distance_metric)])]
                  else JObject [(''name'', JString name)]);
          (res, w1) = make_request env ''POST'' api_path body w
      in if rejected [201, 409] res
         then (Inl (runtime_error (''ChromaDB: Failed to create collection '' @ quote @ name
                      @ quote @ ''. '' @ failure_details res)), w1)
         else (Inr (),
               w1\<lparr>self := (self w1)\<lparr>collection_name := name,
                                     embedding_dims := (if vector_size > 0 then Some vector_size
                                                        else embedding_dims (self w1))\<rparr>\<rparr>))"

definition insert_vectors :: "'d env \<Rightarrow> 'd list list \<Rightarrow> 'd payload list \<Rightarrow> string list
    \<Rightarrow> 'd world \<Rightarrow> (exn + unit) \<times> 'd world" where
  "insert_vectors env vectors payloads ids w =
     (if vectors = [] \<or> ids = [] \<or> length payloads \<noteq> length vectors
         \<or> length ids \<noteq> length vectors
      then (Inl (runtime_error ''ChromaDB: Invalid arguments for insert. Vectors, IDs, and Payloads must be non-empty and of the same size.''), w)
      else
        (let api_path = ''/api/v1/collections/'' @ collection_name (self w) @ ''/add'';
             body = JObject [(''ids'', JArray (map JString ids)),
                             (''embeddings'', JArray (map (\<lambda>v. JArray (map JFloat v)) vectors)),
                             (''metadatas'',
                                JArray (map (\<lambda>p. JObject (serialize_payload p)) payloads))];
             (res, w1) = make_request env ''POST'' api_path body w
         in if rejected [201] res
            then (Inl (runtime_error (''ChromaDB: Failed to insert vectors into '' @ quote
                         @ collection_name (self w1) @ quote @ ''. '' @ failure_details res)), w1)
            else (Inr (), w1)))"

text \<open>
  \<open>VectorStoreSearchResult\<close> and \<open>VectorStoreData\<close>. Both structs name their fields
  \<open>id\<close>, \<open>payload\<close> and \<open>vector\<close>; the fields of the first are prefixed with \<open>hit\<close>,
  those of the second with \<open>data\<close>.
\<close>

record 'd VectorStoreSearchResult =
  hit_id :: string
  score :: 'd
  hit_payload :: "'d payload"
  hit_vector :: "'d list"

record 'd VectorStoreData =
  data_id :: string
  data_payload :: "'d payload"
  data_vector :: "'d list"

text \<open>\<open>emb_list\<close> of \<open>search\<close>: the two conditional expressions, outer then inner.\<close>

definition embedding_list :: "'d json \<Rightarrow> 'd json" where
  "embedding_list res_json =
     (let emb_list_outer =
            (if contains res_json ''embeddings'' \<and> \<not> is_null (at_key res_json ''embeddings'')
                \<and> is_array (at_key res_json ''embeddings'')
             then at_key res_json ''embeddings'' else JArray [])
      in if \<not> json_empty emb_list_outer \<and> is_array (checked_at emb_list_outer 0)
         then checked_at emb_list_outer 0 else JArray [])"

text \<open>The body of the loop of \<open>search\<close> at index \<open>i\<close>.\<close>

definition search_item :: "'d env \<Rightarrow> 'd json \<Rightarrow> 'd json \<Rightarrow> 'd json \<Rightarrow> 'd json \<Rightarrow> nat
    \<Rightarrow> exn + 'd VectorStoreSearchResult" where
  "search_item env ids_list dist_list meta_list emb_list i =
     bind_exn (at_index ids_list i) (\<lambda>id_json.
     bind_exn (get_string id_json) (\<lambda>item_id.
     bind_exn (at_index dist_list i) (\<lambda>dist_json.
     bind_exn (get_double (conv env) dist_json) (\<lambda>item_score.
     bind_exn (at_index meta_list i) (\<lambda>meta_json.
     bind_exn (if json_size emb_list > i \<and> is_array (checked_at emb_list i)
               then get_vector_float (conv env) (checked_at emb_list i) else Inr [])
       (\<lambda>item_vector.
     Inr \<lparr>hit_id = item_id, score = item_score,
          hit_payload = deserialize_payload meta_json, hit_vector = item_vector\<rparr>))))))"

text \<open>What \<open>search\<close> does with the parsed body, inside the \<open>try\<close>.\<close>

definition search_results :: "'d env \<Rightarrow> 'd json \<Rightarrow> exn + 'd VectorStoreSearchResult list" where
  "search_results env res_json =
     (if contains res_json ''ids'' \<and> is_array (at_key res_json ''ids'')
         \<and> \<not> json_empty (at_key res_json ''ids'')
         \<and> contains res_json ''distances'' \<and> is_array (at_key res_json ''distances'')
         \<and> \<not> json_empty (at_key res_json ''distances'')
         \<and> contains res_json ''metadatas'' \<and> is_array (at_key res_json ''metadatas'')
         \<and> \<not> json_empty (at_key res_json ''metadatas'')
      then
        (let ids_list_outer = at_key res_json ''ids'';
             dist_list_outer = at_key res_json ''distances'';
             meta_list_outer = at_key res_json ''metadatas''
         in if \<not> json_empty ids_list_outer
            then
              (let ids_list = checked_at ids_list_outer 0;
                   dist_list = checked_at dist_list_outer 0;
                   meta_list = checked_at meta_list_outer 0;
                   emb_list = embedding_list res_json
               in mapM_exn (search_item env ids_list dist_list meta_list emb_list)
                    [0..<json_size ids_list])
            else Inr [])
      else Inr [])"

definition search :: "'d env \<Rightarrow> string \<Rightarrow> 'd list \<Rightarrow> int \<Rightarrow> 'd payload option \<Rightarrow> 'd world
    \<Rightarrow> (exn + 'd VectorStoreSearchResult list) \<times> 'd world" where
  "search env query_text vector limit filters w =
     (let api_path = ''/api/v1/collections/'' @ collection_name (self w) @ ''/query'';
          body = JObject
            ([(''query_embeddings'', JArray [JArray (map JFloat vector)]),
              (''n_results'', JInteger (word_of_int limit)),
              (''include'', JArray [JString ''metadatas'', JString ''distances'',
                                    JString ''embeddings''])]
             @ (case filters of
                  Some f \<Rightarrow> if f \<noteq> [] then [(''where'', JObject (serialize_payload f))] else []
                | None \<Rightarrow> []));
          (res, w1) = make_request env ''POST'' api_path body w
      in if rejected [200] res
         then (Inl (runtime_error (''ChromaDB: Failed to search vectors in '' @ quote
                      @ collection_name (self w1) @ quote @ ''. '' @ failure_details res)), w1)
         else (catch_json_exception ''ChromaDB: Failed to parse search response JSON: ''
                 (response_body res)
                 (bind_exn (parse_json env (response_body res)) (search_results env)), w1))"

definition delete_vector :: "'d env \<Rightarrow> string \<Rightarrow> 'd world \<Rightarrow> (exn + unit) \<times> 'd world" where
  "delete_vector env vector_id w =
     (let api_path = ''/api/v1/collections/'' @ collection_name (self w) @ ''/delete'';
          body = JObject [(''ids'', JArray [JString vector_id])];
          (res, w1) = make_request env ''POST'' api_path body w
      in if rejected [200] res
         then (Inl (runtime_error (''ChromaDB: Failed to delete vector '' @ quote @ vector_id
                      @ quote @ '' from '' @ quote @ collection_name (self w1) @ quote @ ''. ''
                      @ failure_details res)), w1)
         else (Inr (), w1))"

definition update_vector :: "'d env \<Rightarrow> string \<Rightarrow> 'd list option \<Rightarrow> 'd payload option
    \<Rightarrow> 'd world \<Rightarrow> (exn + unit) \<times> 'd world" where
  "update_vector env vector_id vector payload w =
     (let api_path = ''/api/v1/collections/'' @ collection_name (self w) @ ''/upsert'';
          item_to_upsert = JObject
            ([(''ids'', JArray [JString vector_id])]
             @ (case vector of Some v \<Rightarrow> [(''embeddings'', JArray [JArray (map JFloat v)])]
                | None \<Rightarrow> [])
             @ (case payload of
                  Some p \<Rightarrow> [(''metadatas'', JArray [JObject (serialize_payload p)])]
                | None \<Rightarrow> []))
      in if vector = None \<and> payload = None then (Inr (), w)
         else
           (let (res, w1) = make_request env ''POST'' api_path item_to_upsert w
            in if rejected [200] res
               then (Inl (runtime_error (''ChromaDB: Failed to update/upsert vector '' @ quote
                            @ vector_id @ quote @ '' in '' @ quote @ collection_name (self w1)
                            @ quote @ ''. '' @ failure_details res)), w1)
               else (Inr (), w1)))"

text \<open>What \<open>get_vector\<close> does with the parsed body, inside the \<open>try\<close>.\<close>

definition get_vector_item :: "'d env \<Rightarrow> 'd json \<Rightarrow> exn + 'd VectorStoreData option" where
  "get_vector_item env res_json =
     (if contains res_json ''ids'' \<and> is_array (at_key res_json ''ids'')
      then
        bind_exn (get_vector_string (at_key res_json ''ids'')) (\<lambda>ids.
          if ids \<noteq> [] then
            bind_exn
              (if contains res_json ''embeddings'' \<and> is_array (at_key res_json ''embeddings'')
                  \<and> \<not> json_empty (at_key res_json ''embeddings'')
                  \<and> is_array (checked_at (at_key res_json ''embeddings'') 0)
               then get_vector_float (conv env) (checked_at (at_key res_json ''embeddings'') 0)
               else Inr [])
              (\<lambda>item_vector.
                 Inr (Some \<lparr>data_id = ids ! 0,
                   data_payload =
                     (if contains res_json ''metadatas'' \<and> is_array (at_key res_json ''metadatas'')
                         \<and> \<not> json_empty (at_key res_json ''metadatas'')
                         \<and> is_object (checked_at (at_key res_json ''metadatas'') 0)
                      then deserialize_payload (checked_at (at_key res_json ''metadatas'') 0)
                      else []),
                   data_vector = item_vector\<rparr>))
          else Inr None)
      else Inr None)"

definition get_vector :: "'d env \<Rightarrow> string \<Rightarrow> 'd world
    \<Rightarrow> (exn + 'd VectorStoreData option) \<times> 'd world" where
  "get_vector env vector_id w =
     (let api_path = ''/api/v1/collections/'' @ collection_name (self w) @ ''/get'';
          body = JObject [(''ids'', JArray [JString vector_id]),
                          (''include'', JArray [JString ''metadatas'', JString ''embeddings''])];
          (res, w1) = make_request env ''POST'' api_path body w
      in if rejected [200] res then (Inr None, w1)
         else (catch_json_exception
                 (''ChromaDB: Failed to parse get_vector response JSON for id '' @ quote
                    @ vector_id @ quote @ '': '')
                 (response_body res)
                 (bind_exn (parse_json env (response_body res)) (get_vector_item env)), w1))"

text \<open>The names that \<open>list_collections\<close> collects from the parsed body.\<close>

definition collection_names :: "'d json \<Rightarrow> string list" where
  "collection_names res_json =
     (case res_json of
        JArray cols \<Rightarrow>
          concat (map (\<lambda>col. if is_object col \<and> contains col ''name''
                                  \<and> is_string (at_key col ''name'')
                               then (case at_key col ''name'' of JString s \<Rightarrow> [s] | _ \<Rightarrow> [])
                               else []) cols)
      | _ \<Rightarrow> [])"

definition list_collections :: "'d env \<Rightarrow> 'd world \<Rightarrow> (exn + string list) \<times> 'd world" where
  "list_collections env w =
     (let api_path = ''/api/v1/collections'';
          (res, w1) = make_request env ''GET'' api_path JNull w
      in if rejected [200] res
         then (Inl (runtime_error (''ChromaDB: Failed to list collections. ''
                      @ failure_details res)), w1)
         else (catch_json_exception ''ChromaDB: Failed to parse list_collections response: ''
                 (response_body res)
                 (bind_exn (parse_json env (response_body res))
                    (\<lambda>res_json. Inr (collection_names res_json))), w1))"

definition delete_collection :: "'d env \<Rightarrow> string \<Rightarrow> 'd world \<Rightarrow> (exn + unit) \<times> 'd world" where
  "delete_collection env name w =
     (let api_path = ''/api/v1/collections/'' @ name;
          (res, w1) = make_request env ''DELETE'' api_path JNull w
      in if rejected [200, 404] res
         then (Inl (runtime_error (''ChromaDB: Failed to delete collection '' @ quote @ name
                      @ quote @ ''. '' @ failure_details res)), w1)
         else (Inr (), w1))"

text \<open>The body of the loop of \<open>list_vectors\<close> at index \<open>i\<close>, below the length of \<open>ids_list\<close>.\<close>

definition list_item :: "'d env \<Rightarrow> string list \<Rightarrow> 'd json \<Rightarrow> 'd json \<Rightarrow> nat
    \<Rightarrow> exn + 'd VectorStoreData" where
  "list_item env ids_list meta_list_json emb_list_json i =
     bind_exn (if json_size emb_list_json > i \<and> is_array (checked_at emb_list_json i)
               then get_vector_float (conv env) (checked_at emb_list_json i) else Inr [])
       (\<lambda>item_vector.
     Inr \<lparr>data_id = ids_list ! i,
          data_payload = (if json_size meta_list_json > i
                             \<and> is_object (checked_at meta_list_json i)
                          then deserialize_payload (checked_at meta_list_json i) else []),
          data_vector = item_vector\<rparr>)"

definition list_results :: "'d env \<Rightarrow> 'd json \<Rightarrow> exn + 'd VectorStoreData list" where
  "list_results env res_json =
     (if contains res_json ''ids'' \<and> is_array (at_key res_json ''ids'')
      then
        bind_exn (get_vector_string (at_key res_json ''ids'')) (\<lambda>ids_list.
          let meta_list_json =
                (if contains res_json ''metadatas'' \<and> is_array (at_key res_json ''metadatas'')
                 then at_key res_json ''metadatas'' else JArray []);
              emb_list_json =
                (if contains res_json ''embeddings'' \<and> is_array (at_key res_json ''embeddings'')
                 then at_key res_json ''embeddings'' else JArray [])
          in mapM_exn (list_item env ids_list meta_list_json emb_list_json)
               [0..<length ids_list])
      else Inr [])"

definition list_vectors :: "'d env \<Rightarrow> 'd payload option \<Rightarrow> int option \<Rightarrow> 'd world
    \<Rightarrow> (exn + 'd VectorStoreData list) \<times> 'd world" where
  "list_vectors env filters limit w =
     (let api_path = ''/api/v1/collections/'' @ collection_name (self w) @ ''/get'';
          body = JObject
            ((case filters of
                Some f \<Rightarrow> if f \<noteq> [] then [(''where'', JObject (serialize_payload f))] else []
              | None \<Rightarrow> [])
             @ (case limit of Some n \<Rightarrow> [(''limit'', JInteger (word_of_int n))] | None \<Rightarrow> [])
             @ [(''include'', JArray [JString ''metadatas'', JString ''embeddings''])]);
          (res, w1) = make_request env ''POST'' api_path body w
      in if rejected [200] res
         then (Inl (runtime_error (''ChromaDB: Failed to list vectors from '' @ quote
                      @ collection_name (self w1) @ quote @ ''. '' @ failure_details res)), w1)
         else (catch_json_exception ''ChromaDB: Failed to parse list_vectors response JSON: ''
                 (response_body res)
                 (bind_exn (parse_json env (response_body res)) (list_results env)), w1))"

text \<open>
  \<open>reset_collection\<close>: the \<open>catch\<close> around the delete takes a \<open>std::runtime_error\<close> and
  goes on; anything else would leave the function.
\<close>

definition reset_collection :: "'d env \<Rightarrow> 'd world \<Rightarrow> (exn + unit) \<times> 'd world" where
  "reset_collection env w =
     (let current_collection = collection_name (self w);
          current_dims = (case embedding_dims (self w) of Some d \<Rightarrow> d | None \<Rightarrow> 0);
          (deleted, w1) = delete_collection env current_collection w
      in case deleted of
           Inl (json_exception msg) \<Rightarrow> (Inl (json_exception msg), w1)
         | Inl undefined_behaviour \<Rightarrow> (Inl undefined_behaviour, w1)
         | _ \<Rightarrow> create_collection env current_collection current_dims ''cosine'' w1)"


section \<open>Notions of the specification\<close>

text \<open>
  \<open>scalar_of\<close> gives the scalar kind and the value of a held C++ value: an integer is
  read as the signed number it stands for, a \<open>float\<close> as the \<open>double\<close> it widens to. It
  gives nothing for an empty \<open>std::any\<close> and for a value that is no scalar (a vector, a
  map, a struct).
\<close>

fun scalar_of :: "'d std_any \<Rightarrow> 'd scalar option" where
  "scalar_of (AnyString s) = Some (SString s)"
| "scalar_of (AnyCStr s) = Some (SString s)"
| "scalar_of (AnyInt n) = Some (SInteger (sint n))"
| "scalar_of (AnyLong n) = Some (SInteger (sint n))"
| "scalar_of (AnyLongLong n) = Some (SInteger (sint n))"
| "scalar_of (AnyFloat x) = Some (SFloat x)"
| "scalar_of (AnyDouble x) = Some (SFloat x)"
| "scalar_of (AnyBool b) = Some (SBoolean b)"
| "scalar_of AnyEmpty = None"
| "scalar_of (AnyOther t content) = content"

text \<open>
  The C++ value that decoding gives back for an encoded scalar: the widest type of its
  kind.
\<close>

fun widened :: "'d std_any \<Rightarrow> 'd std_any" where
  "widened (AnyInt n) = AnyLongLong (scast n)"
| "widened (AnyLong n) = AnyLongLong n"
| "widened (AnyFloat x) = AnyDouble x"
| "widened (AnyCStr s) = AnyString s"
| "widened v = v"


text \<open>
  A protocol error: a \<open>std::runtime_error\<close> whose message is the operation's own
  prefix, then the HTTP status code in decimal and the response body, unchanged.
\<close>

definition protocol_error :: "string \<Rightarrow> int \<Rightarrow> string \<Rightarrow> exn" where
  "protocol_error prefix status body =
     runtime_error (prefix @ ''Status: '' @ to_string status @ '', Body: '' @ body)"

text \<open>
  A codec error: a \<open>std::runtime_error\<close> whose message is the operation's own prefix,
  then the \<open>what()\<close> of the JSON library's exception and the response body, unchanged.
\<close>

definition codec_error :: "string \<Rightarrow> string \<Rightarrow> string \<Rightarrow> exn" where
  "codec_error prefix msg body = runtime_error (prefix @ msg @ ''. Body: '' @ body)"

text \<open>An array of JSON numbers, or a value that is no array at all.\<close>

fun is_number :: "'d json \<Rightarrow> bool" where
  "is_number (JInteger _) = True"
| "is_number (JUnsigned _) = True"
| "is_number (JFloat _) = True"
| "is_number _ = False"

fun numbers_only :: "'d json \<Rightarrow> bool" where
  "numbers_only (JArray xs) = list_all is_number xs"
| "numbers_only _ = True"

section \<open>Example values\<close>

text \<open>
  A store on the defaults of its configuration, a world in which it has sent nothing
  yet, casts that do not round, and an environment whose service gives one answer to
  every request and whose parser knows the texts of a table and rejects every other.
\<close>

definition plain_casts :: "real casts" where
  "plain_casts = \<lparr>double_of_int = real_of_int, float_of_int = real_of_int,
                   float_of_double = (\<lambda>x. x)\<rparr>"

definition local_store :: ChromaVectorStore where
  "local_store = \<lparr>host = ''localhost'', port = 8000, collection_name = ''mem0'',
                   embedding_dims = None\<rparr>"

definition fresh_world :: "real world" where
  "fresh_world = \<lparr>self = local_store, sent = []\<rparr>"

definition answering :: "(string \<times> real json) list \<Rightarrow> http_result \<Rightarrow> real env" where
  "answering table r =
     \<lparr>parse = (\<lambda>text. case map_of table text of Some j \<Rightarrow> Inr j
                | None \<Rightarrow> Inl ''[json.exception.parse_error.101] parse error''),
      server = (\<lambda>requests. r),
      conv = plain_casts\<rparr>"


text \<open>
  A service that answers by the method of the request, and three response bodies as
  the parser gives them back: a \<open>get\<close> response without and with a record, and
  \<open>query\<close> responses with their results one level down, by growing distance and not.
\<close>

definition routed :: "(string \<Rightarrow> http_result) \<Rightarrow> real env" where
  "routed route =
     \<lparr>parse = (\<lambda>text. Inl ''[json.exception.parse_error.101] parse error''),
      server = (\<lambda>requests. route (req_method (last requests))),
      conv = plain_casts\<rparr>"



definition query_reply_sorted :: "real json" where
  "query_reply_sorted =
     JObject [(''ids'', JArray [JArray [JString ''a'', JString ''b'', JString ''c'']]),
              (''distances'', JArray [JArray [JFloat 0, JFloat (1/10), JFloat (1/2)]]),
              (''metadatas'', JArray [JArray [JNull, JNull, JNull]])]"

definition query_reply_unsorted :: "real json" where
  "query_reply_unsorted =
     JObject [(''ids'', JArray [JArray [JString ''a'', JString ''b'']]),
              (''distances'', JArray [JArray [JFloat (1/2), JFloat (1/10)]]),
              (''metadatas'', JArray [JArray [JNull, JNull]])]"

text \<open>
  Two bodies whose ids are numbers where the protocol has strings: a \<open>get\<close> response
  and a \<open>query\<close> response.
\<close>

definition get_reply_number_id :: "real json" where
  "get_reply_number_id = JObject [(''ids'', JArray [JUnsigned 7])]"

definition query_reply_number_id :: "real json" where
  "query_reply_number_id =
     JObject [(''ids'', JArray [JArray [JUnsigned 7]]),
              (''distances'', JArray [JArray [JFloat 0]]),
              (''metadatas'', JArray [JArray [JNull]])]"

section \<open>The codec\<close>

lemma update_fresh:
  "k \<notin> fst ` set al \<Longrightarrow> AList.update k v al = al @ [(k, v)]"
  by (induction al) auto

text \<open>
  A loop that stores one entry per pair of a map with unique keys appends them in
  turn.
\<close>

lemma fold_update_distinct:
  "distinct (map fst xs) \<Longrightarrow> fst ` set xs \<inter> fst ` set acc = {} \<Longrightarrow>
   fold (\<lambda>pair m. AList.update (fst pair) (f (snd pair)) m) xs acc
     = acc @ map (\<lambda>pair. (fst pair, f (snd pair))) xs"
proof (induction xs arbitrary: acc)
  case Nil
  then show ?case by simp
next
  case (Cons x xs)
  have fresh: "fst x \<notin> fst ` set acc" using Cons.prems(2) by auto
  have d: "distinct (map fst xs)" using Cons.prems(1) by simp
  have disj: "fst ` set xs \<inter> fst ` set (acc @ [(fst x, f (snd x))]) = {}"
    using Cons.prems by (auto simp: image_iff)
  show ?case
    using Cons.IH [OF d disj] by (simp add: update_fresh [OF fresh])
qed

lemma serialize_payload_distinct:
  "distinct (map fst p) \<Longrightarrow>
   serialize_payload p = map (\<lambda>pair. (fst pair, any_to_json (snd pair))) p"
  unfolding serialize_payload_def by (simp add: fold_update_distinct)

lemma map_of_map_snd:
  "map_of (map (\<lambda>pair. (fst pair, g (snd pair))) p) k = map_option g (map_of p k)"
  by (induction p) auto

lemma deserialize_entry_encoded:
  "deserialize_entry (k, any_to_json v) m
     = (if tested_type v then AList.update k (widened v) m else m)"
  by (cases v) simp_all

text \<open>
  Decoding an encoded payload stores the entries of the tested types and passes over
  the others, which were encoded as null.
\<close>

lemma fold_deserialize_encoded:
  "fold deserialize_entry (map (\<lambda>pair. (fst pair, any_to_json (snd pair))) p) acc
     = fold (\<lambda>pair m. AList.update (fst pair) (widened (snd pair)) m)
         (filter (\<lambda>pair. tested_type (snd pair)) p) acc"
  by (induction p arbitrary: acc) (simp_all add: deserialize_entry_encoded)

lemma decode_encode:
  assumes "distinct (map fst p)"
  shows "deserialize_payload (JObject (serialize_payload p))
           = map (\<lambda>pair. (fst pair, widened (snd pair)))
               (filter (\<lambda>pair. tested_type (snd pair)) p)"
proof -
  have "distinct (map fst (filter (\<lambda>pair. tested_type (snd pair)) p))"
    using assms by (rule distinct_map_filter)
  then show ?thesis
    using assms
    by (simp add: serialize_payload_distinct fold_deserialize_encoded fold_update_distinct)
qed

lemma map_of_filter_distinct:
  "distinct (map fst p) \<Longrightarrow> map_of p k = Some v \<Longrightarrow>
   map_of (filter (\<lambda>pair. Q (snd pair)) p) k = (if Q v then Some v else None)"
proof (induction p)
  case Nil
  then show ?case by simp
next
  case (Cons x p)
  show ?case
  proof (cases "fst x = k")
    case True
    then have v: "snd x = v" using Cons.prems(2) by (cases x) simp
    have "k \<notin> fst ` set p" using Cons.prems(1) True by auto
    then have "k \<notin> fst ` set (filter (\<lambda>pair. Q (snd pair)) p)" by auto
    then have "map_of (filter (\<lambda>pair. Q (snd pair)) p) k = None"
      by (simp add: map_of_eq_None_iff)
    then show ?thesis using True v by (cases x) auto
  next
    case False
    then have "map_of p k = Some v" using Cons.prems(2) by (cases x) simp
    then show ?thesis using Cons.IH Cons.prems(1) False by (cases x) auto
  qed
qed

lemma sint_scast_32_64: "sint (scast (n :: 32 word) :: 64 word) = sint n"
  by (simp add: sint_up_scast is_up)

lemma scalar_of_widened:
  "tested_type v \<Longrightarrow> scalar_of (widened v) = scalar_of v \<and> scalar_of v \<noteq> None"
  by (cases v) (simp_all add: sint_scast_32_64)

text \<open>
  Claim C3, as the specification states it, fails in two ways. An integer of a type
  that \<open>any_to_json\<close> does not test for, here the \<open>unsigned int\<close> 7, is encoded as null
  and its key is gone after decoding. And a value of a tested type does not come back
  as it was: the \<open>int\<close> 7 comes back as the \<open>long long\<close> 7, another held type.
\<close>

theorem codec_round_trip_counterexample:
  "scalar_of (AnyOther ''unsigned int'' (Some (SInteger 7)) :: real std_any) = Some (SInteger 7)
   \<and> map_of (deserialize_payload (JObject (serialize_payload
        [(''count'', AnyOther ''unsigned int'' (Some (SInteger 7)) :: real std_any)])))
        ''count'' = None
   \<and> map_of (deserialize_payload (JObject (serialize_payload
        [(''page'', AnyInt 7 :: real std_any)]))) ''page'' = Some (AnyLongLong 7)
   \<and> AnyLongLong 7 \<noteq> (AnyInt 7 :: real std_any)"
  by (simp add: serialize_payload_def)

text \<open>
  Claim C3, amended. For a payload (a map, so its keys are unique), decoding the encoded
  payload gives exactly the keys whose values hold one of the types that \<open>any_to_json\<close>
  tests for (\<open>std::string\<close>, \<open>const char*\<close>, \<open>int\<close>, \<open>long\<close>, \<open>long long\<close>, \<open>float\<close>,
  \<open>double\<close>, \<open>bool\<close>). For each of them the value has the same scalar kind and the same
  value as before, held in the widest type of its kind (\<open>widened\<close>): \<open>int\<close> and \<open>long\<close>
  come back as \<open>long long\<close>, \<open>float\<close> as \<open>double\<close>, \<open>const char*\<close> as \<open>std::string\<close>.
  The keys of all other values, scalars of other types among them, are gone. So a
  payload whose values all hold tested types keeps its key set.
\<close>

theorem codec_round_trip:
  assumes "distinct (map fst p)"
  shows "fst ` set (deserialize_payload (JObject (serialize_payload p)))
           = fst ` {pair \<in> set p. tested_type (snd pair)}
         \<and> (\<forall>k v. map_of p k = Some v \<and> tested_type v \<longrightarrow>
               map_of (deserialize_payload (JObject (serialize_payload p))) k = Some (widened v)
               \<and> scalar_of (widened v) = scalar_of v \<and> scalar_of v \<noteq> None)
         \<and> (\<forall>k v. map_of p k = Some v \<and> \<not> tested_type v \<longrightarrow>
               map_of (deserialize_payload (JObject (serialize_payload p))) k = None)
         \<and> ((\<forall>v \<in> snd ` set p. tested_type v) \<longrightarrow>
               fst ` set (deserialize_payload (JObject (serialize_payload p))) = fst ` set p)"
proof -
  let ?kept = "filter (\<lambda>pair. tested_type (snd pair)) p"
  have eq: "deserialize_payload (JObject (serialize_payload p))
              = map (\<lambda>pair. (fst pair, widened (snd pair))) ?kept"
    by (rule decode_encode [OF assms])
  have keys: "fst ` set (map (\<lambda>pair. (fst pair, widened (snd pair))) ?kept)
                = fst ` {pair \<in> set p. tested_type (snd pair)}"
    by (force simp: image_iff)
  have all: "fst ` {pair \<in> set p. tested_type (snd pair)} = fst ` set p"
    if "\<forall>v \<in> snd ` set p. tested_type v"
    using that by (force simp: image_iff)
  have look: "map_of (map (\<lambda>pair. (fst pair, widened (snd pair))) ?kept) k
                = (if tested_type v then Some (widened v) else None)"
    if "map_of p k = Some v" for k v
    using map_of_filter_distinct [OF assms that, of tested_type]
    by (simp add: map_of_map_snd)
  have c1: "fst ` set (deserialize_payload (JObject (serialize_payload p)))
              = fst ` {pair \<in> set p. tested_type (snd pair)}"
    unfolding eq by (rule keys)
  have c2: "\<forall>k v. map_of p k = Some v \<and> tested_type v \<longrightarrow>
               map_of (deserialize_payload (JObject (serialize_payload p))) k = Some (widened v)
               \<and> scalar_of (widened v) = scalar_of v \<and> scalar_of v \<noteq> None"
    unfolding eq using look by (simp add: scalar_of_widened)
  have c3: "\<forall>k v. map_of p k = Some v \<and> \<not> tested_type v \<longrightarrow>
               map_of (deserialize_payload (JObject (serialize_payload p))) k = None"
    unfolding eq using look by simp
  have c4: "(\<forall>v \<in> snd ` set p. tested_type v) \<longrightarrow>
               fst ` set (deserialize_payload (JObject (serialize_payload p))) = fst ` set p"
    using c1 all by simp
  show ?thesis
    by (intro conjI c1 c2 c3 c4)
qed

theorem codec_round_trip_witness:
  "map_of (deserialize_payload (JObject (serialize_payload
      [(''source'', AnyCStr ''web''), (''page'', AnyInt 7), (''weight'', AnyFloat (1/2 :: real)),
       (''seen'', AnyBool True), (''count'', AnyOther ''unsigned int'' (Some (SInteger 7)))])))
      ''page'' = Some (AnyLongLong 7)
   \<and> map_of (deserialize_payload (JObject (serialize_payload
      [(''source'', AnyCStr ''web''), (''page'', AnyInt 7), (''weight'', AnyFloat (1/2 :: real)),
       (''seen'', AnyBool True), (''count'', AnyOther ''unsigned int'' (Some (SInteger 7)))])))
      ''count'' = None
   \<and> fst ` set (deserialize_payload (JObject (serialize_payload
      [(''source'', AnyCStr ''web''), (''page'', AnyInt 7), (''weight'', AnyFloat (1/2 :: real)),
       (''seen'', AnyBool True)])))
     = {''source'', ''page'', ''weight'', ''seen''}"
  using codec_round_trip [of "[(''source'', AnyCStr ''web''), (''page'', AnyInt 7),
        (''weight'', AnyFloat (1/2 :: real)), (''seen'', AnyBool True),
        (''count'', AnyOther ''unsigned int'' (Some (SInteger 7)))]",
      THEN conjunct2, THEN conjunct1, rule_format, of "''page''" "AnyInt 7"]
    codec_round_trip [of "[(''source'', AnyCStr ''web''), (''page'', AnyInt 7),
        (''weight'', AnyFloat (1/2 :: real)), (''seen'', AnyBool True),
        (''count'', AnyOther ''unsigned int'' (Some (SInteger 7)))]",
      THEN conjunct2, THEN conjunct2, THEN conjunct1, rule_format,
      of "''count''" "AnyOther ''unsigned int'' (Some (SInteger 7))"]
    codec_round_trip [of "[(''source'', AnyCStr ''web''), (''page'', AnyInt 7),
        (''weight'', AnyFloat (1/2 :: real)), (''seen'', AnyBool True)]",
      THEN conjunct2, THEN conjunct2, THEN conjunct2]
  by simp

lemma map_of_serialize_payload:
  "distinct (map fst p) \<Longrightarrow>
   map_of (serialize_payload p) k = map_option any_to_json (map_of p k)"
  by (simp add: serialize_payload_distinct map_of_map_snd)

text \<open>
  Claim C1, as the specification states it, fails: a value of a type that
  \<open>any_to_json\<close> does not test for, here a vector of strings, is not encoded as a JSON
  string that holds it. Its key is kept, with JSON null for value.
\<close>

theorem opaque_value_counterexample:
  "map_of (serialize_payload
      [(''tags'', AnyOther ''std::vector<std::string>'' None :: real std_any)]) ''tags''
     = Some JNull
   \<and> \<not> is_string (any_to_json (AnyOther ''std::vector<std::string>'' None :: real std_any))"
  by (simp add: serialize_payload_def)

text \<open>
  Claim C1, amended. For every entry of a payload whose value has a type other than
  those \<open>any_to_json\<close> tests for (\<open>std::string\<close>, \<open>int\<close>, \<open>long\<close>, \<open>long long\<close>, \<open>float\<close>,
  \<open>double\<close>, \<open>bool\<close>, \<open>const char*\<close>), the encoded payload has the key with the value
  JSON null: the data of the value is not kept.
\<close>

theorem unsupported_value_encodes_null:
  assumes "distinct (map fst p)" and "map_of p k = Some (AnyOther t content)"
  shows "map_of (serialize_payload p) k = Some JNull"
  using assms by (simp add: map_of_serialize_payload)

theorem unsupported_value_encodes_null_witness:
  "map_of (serialize_payload
      [(''page'', AnyInt 3), (''tags'', AnyOther ''std::vector<int>'' None :: real std_any)])
     ''tags'' = Some JNull"
  using unsupported_value_encodes_null [of
      "[(''page'', AnyInt 3), (''tags'', AnyOther ''std::vector<int>'' None :: real std_any)]"
      "''tags''" "''std::vector<int>''" None]
  by simp

section \<open>Requests and status codes\<close>

lemma make_request_post:
  "make_request env ''POST'' path (JObject kvs) w
     = send env ''POST'' path (Dump (JObject kvs)) w"
  by (simp add: make_request_def)

lemma make_request_get:
  "make_request env ''GET'' path JNull w = send env ''GET'' path NoContent w"
  by (simp add: make_request_def)

lemma make_request_delete:
  "make_request env ''DELETE'' path JNull w = send env ''DELETE'' path NoContent w"
  by (simp add: make_request_def)

lemmas requests = make_request_post make_request_get make_request_delete

text \<open>
  Claim C6. \<open>create_collection\<close> succeeds when the answer to its request has status 201
  or 409; with any other status, or with no response at all, it throws a
  \<open>std::runtime_error\<close> that says the creation failed. The answer is that of the service
  to the requests sent up to the end of the call.
\<close>

theorem create_collection_outcome:
  "(server env (sent (snd (create_collection env name vector_size metric w)))
        = Response status body
      \<and> (status = 201 \<or> status = 409)
    \<longrightarrow> fst (create_collection env name vector_size metric w) = Inr ())
   \<and> (server env (sent (snd (create_collection env name vector_size metric w)))
        = Response status body
      \<and> status \<noteq> 201 \<and> status \<noteq> 409
    \<longrightarrow> fst (create_collection env name vector_size metric w)
          = Inl (protocol_error
                  (''ChromaDB: Failed to create collection '' @ quote @ name @ quote @ ''. '')
                  status body))
   \<and> (server env (sent (snd (create_collection env name vector_size metric w))) = Failed e
    \<longrightarrow> fst (create_collection env name vector_size metric w)
          = Inl (runtime_error (''ChromaDB: Failed to create collection '' @ quote @ name @ quote
                   @ ''. Request Error: '' @ e)))"
  by (auto simp: create_collection_def requests send_def Let_def protocol_error_def)

theorem create_collection_outcome_witness:
  "fst (create_collection (answering [] (Response 409 ''exists'')) ''mem0'' 0 ''cosine''
          fresh_world)
     = Inr ()
   \<and> fst (create_collection (answering [] (Response 500 ''boom'')) ''mem0'' 0 ''cosine''
            fresh_world)
     = Inl (protocol_error
             (''ChromaDB: Failed to create collection '' @ quote @ ''mem0'' @ quote @ ''. '')
             500 ''boom'')
   \<and> fst (create_collection (answering [] (Failed ''Connection'')) ''mem0'' 0 ''cosine''
            fresh_world)
     = Inl (runtime_error (''ChromaDB: Failed to create collection '' @ quote @ ''mem0'' @ quote
              @ ''. Request Error: '' @ ''Connection''))"
  using create_collection_outcome [of "answering [] (Response 409 ''exists'')" "''mem0''" 0
      "''cosine''" fresh_world 409 "''exists''"]
    create_collection_outcome [of "answering [] (Response 500 ''boom'')" "''mem0''" 0
      "''cosine''" fresh_world 500 "''boom''"]
    create_collection_outcome [of "answering [] (Failed ''Connection'')" "''mem0''" 0
      "''cosine''" fresh_world _ _ "''Connection''"]
  by (simp add: answering_def)

text \<open>
  Claim C4. When the three arguments of \<open>insert\<close> do not all have the same length
  above zero, the call throws the argument error and leaves the world as it was: the
  object is unchanged and no request has been sent. When they do, the call sends one
  request, the \<open>POST\<close> to the \<open>add\<close> path of the active collection, and does not throw
  the argument error.
\<close>

theorem insert_argument_check:
  "(\<not> (length vectors = length payloads \<and> length payloads = length ids \<and> 0 < length ids)
    \<longrightarrow> insert_vectors env vectors payloads ids w
          = (Inl (runtime_error ''ChromaDB: Invalid arguments for insert. Vectors, IDs, and Payloads must be non-empty and of the same size.''), w))
   \<and> (length vectors = length payloads \<and> length payloads = length ids \<and> 0 < length ids
    \<longrightarrow> (\<exists>rq. sent (snd (insert_vectors env vectors payloads ids w)) = sent w @ [rq]
              \<and> req_method rq = ''POST''
              \<and> req_path rq = ''/api/v1/collections/'' @ collection_name (self w) @ ''/add'')
        \<and> self (snd (insert_vectors env vectors payloads ids w)) = self w
        \<and> fst (insert_vectors env vectors payloads ids w)
            \<noteq> Inl (runtime_error ''ChromaDB: Invalid arguments for insert. Vectors, IDs, and Payloads must be non-empty and of the same size.''))"
  by (auto simp: insert_vectors_def requests send_def Let_def)

theorem insert_argument_check_witness:
  "insert_vectors (answering [] (Response 201 ''true'')) [[1, 0]] [[], []] [''a''] fresh_world
     = (Inl (runtime_error ''ChromaDB: Invalid arguments for insert. Vectors, IDs, and Payloads must be non-empty and of the same size.''), fresh_world)
   \<and> map req_path (sent (snd (insert_vectors (answering [] (Response 201 ''true'')) [[1, 0]]
         [[]] [''a''] fresh_world))) = [''/api/v1/collections/mem0/add'']"
  using insert_argument_check [of "[[1, 0]]" "[[], []]" "[''a'']"
      "answering [] (Response 201 ''true'')" fresh_world]
    insert_argument_check [of "[[1, 0]]" "[[]]" "[''a'']"
      "answering [] (Response 201 ''true'')" fresh_world]
  by (auto simp: fresh_world_def local_store_def)


section \<open>Statuses outside the accepted set\<close>

text \<open>
  One lemma for each operation: the answer to its request is that of the service to
  the requests sent up to the end of the call; when its status is not one that the
  operation accepts, the operation throws, and the message holds the status and the
  body.
\<close>

lemma create_collection_rejected:
  "server env (sent (snd (create_collection env name vector_size metric w))) = Response status body
     \<and> status \<noteq> 201 \<and> status \<noteq> 409
   \<longrightarrow> fst (create_collection env name vector_size metric w)
         = Inl (protocol_error
                 (''ChromaDB: Failed to create collection '' @ quote @ name @ quote @ ''. '')
                 status body)"
  by (auto simp: create_collection_def requests send_def Let_def protocol_error_def)

lemma insert_vectors_rejected:
  "server env (sent (snd (insert_vectors env vectors payloads ids w))) = Response status body
     \<and> status \<noteq> 201
     \<and> length vectors = length payloads \<and> length payloads = length ids \<and> 0 < length ids
   \<longrightarrow> fst (insert_vectors env vectors payloads ids w)
         = Inl (protocol_error
                 (''ChromaDB: Failed to insert vectors into '' @ quote @ collection_name (self w) @ quote
                  @ ''. '')
                 status body)"
  by (auto simp: insert_vectors_def requests send_def Let_def protocol_error_def)

lemma search_rejected:
  "server env (sent (snd (search env query_text vector limit filters w))) = Response status body
     \<and> status \<noteq> 200
   \<longrightarrow> fst (search env query_text vector limit filters w)
         = Inl (protocol_error
                 (''ChromaDB: Failed to search vectors in '' @ quote @ collection_name (self w) @ quote
                  @ ''. '')
                 status body)"
  by (auto simp: search_def requests send_def Let_def protocol_error_def)

lemma delete_vector_rejected:
  "server env (sent (snd (delete_vector env vector_id w))) = Response status body
     \<and> status \<noteq> 200
   \<longrightarrow> fst (delete_vector env vector_id w)
         = Inl (protocol_error
                 (''ChromaDB: Failed to delete vector '' @ quote @ vector_id @ quote @ '' from ''
                  @ quote @ collection_name (self w) @ quote @ ''. '')
                 status body)"
  by (auto simp: delete_vector_def requests send_def Let_def protocol_error_def)

lemma update_vector_rejected:
  "server env (sent (snd (update_vector env vector_id new_vector new_payload w))) = Response status body
     \<and> status \<noteq> 200 \<and> (new_vector \<noteq> None \<or> new_payload \<noteq> None)
   \<longrightarrow> fst (update_vector env vector_id new_vector new_payload w)
         = Inl (protocol_error
                 (''ChromaDB: Failed to update/upsert vector '' @ quote @ vector_id @ quote @ '' in ''
                  @ quote @ collection_name (self w) @ quote @ ''. '')
                 status body)"
  by (auto simp: update_vector_def requests send_def Let_def protocol_error_def)

lemma list_collections_rejected:
  "server env (sent (snd (list_collections env w))) = Response status body
     \<and> status \<noteq> 200
   \<longrightarrow> fst (list_collections env w)
         = Inl (protocol_error
                 (''ChromaDB: Failed to list collections. '')
                 status body)"
  by (auto simp: list_collections_def requests send_def Let_def protocol_error_def)

lemma delete_collection_rejected:
  "server env (sent (snd (delete_collection env name w))) = Response status body
     \<and> status \<noteq> 200 \<and> status \<noteq> 404
   \<longrightarrow> fst (delete_collection env name w)
         = Inl (protocol_error
                 (''ChromaDB: Failed to delete collection '' @ quote @ name @ quote @ ''. '')
                 status body)"
  by (auto simp: delete_collection_def requests send_def Let_def protocol_error_def)

lemma list_vectors_rejected:
  "server env (sent (snd (list_vectors env filters list_limit w))) = Response status body
     \<and> status \<noteq> 200
   \<longrightarrow> fst (list_vectors env filters list_limit w)
         = Inl (protocol_error
                 (''ChromaDB: Failed to list vectors from '' @ quote @ collection_name (self w) @ quote
                  @ ''. '')
                 status body)"
  by (auto simp: list_vectors_def requests send_def Let_def protocol_error_def)

lemma get_vector_rejected:
  "server env (sent (snd (get_vector env vector_id w))) = Response status body
     \<and> status \<noteq> 200
   \<longrightarrow> fst (get_vector env vector_id w) = Inr None"
  by (auto simp: get_vector_def requests send_def Let_def)

text \<open>
  Claim C2, as the specification states it, fails for \<open>get_vector\<close>: with status 500 it
  returns the empty option, a normal value, and throws nothing.
\<close>

theorem get_vector_status_counterexample:
  "fst (get_vector (answering [] (Response 500 ''boom'')) ''v1'' fresh_world) = Inr None"
  by (simp add: get_vector_def requests send_def answering_def)

text \<open>
  Claim C2, amended. For every operation of the protocol table other than
  \<open>get_vector\<close> (create, insert, search, delete vector, update vector with something to
  update, list collections, delete collection, list vectors), a response whose status
  is outside the accepted set of the operation makes the operation throw a protocol
  error that holds the status code and the body, unchanged. \<open>get_vector\<close> returns the
  empty option for every status other than 200.
\<close>

theorem protocol_error_surfaced:
  "(server env (sent (snd (create_collection env name vector_size metric w))) = Response status body
     \<and> status \<noteq> 201 \<and> status \<noteq> 409
   \<longrightarrow> fst (create_collection env name vector_size metric w)
         = Inl (protocol_error
                 (''ChromaDB: Failed to create collection '' @ quote @ name @ quote @ ''. '')
                 status body))
   \<and> (server env (sent (snd (insert_vectors env vectors payloads ids w))) = Response status body
     \<and> status \<noteq> 201
     \<and> length vectors = length payloads \<and> length payloads = length ids \<and> 0 < length ids
   \<longrightarrow> fst (insert_vectors env vectors payloads ids w)
         = Inl (protocol_error
                 (''ChromaDB: Failed to insert vectors into '' @ quote @ collection_name (self w) @ quote
                  @ ''. '')
                 status body))
   \<and> (server env (sent (snd (search env query_text vector limit filters w))) = Response status body
     \<and> status \<noteq> 200
   \<longrightarrow> fst (search env query_text vector limit filters w)
         = Inl (protocol_error
                 (''ChromaDB: Failed to search vectors in '' @ quote @ collection_name (self w) @ quote
                  @ ''. '')
                 status body))
   \<and> (server env (sent (snd (delete_vector env vector_id w))) = Response status body
     \<and> status \<noteq> 200
   \<longrightarrow> fst (delete_vector env vector_id w)
         = Inl (protocol_error
                 (''ChromaDB: Failed to delete vector '' @ quote @ vector_id @ quote @ '' from ''
                  @ quote @ collection_name (self w) @ quote @ ''. '')
                 status body))
   \<and> (server env (sent (snd (update_vector env vector_id new_vector new_payload w))) = Response status body
     \<and> status \<noteq> 200 \<and> (new_vector \<noteq> None \<or> new_payload \<noteq> None)
   \<longrightarrow> fst (update_vector env vector_id new_vector new_payload w)
         = Inl (protocol_error
                 (''ChromaDB: Failed to update/upsert vector '' @ quote @ vector_id @ quote @ '' in ''
                  @ quote @ collection_name (self w) @ quote @ ''. '')
                 status body))
   \<and> (server env (sent (snd (list_collections env w))) = Response status body
     \<and> status \<noteq> 200
   \<longrightarrow> fst (list_collections env w)
         = Inl (protocol_error
                 (''ChromaDB: Failed to list collections. '')
                 status body))
   \<and> (server env (sent (snd (delete_collection env name w))) = Response status body
     \<and> status \<noteq> 200 \<and> status \<noteq> 404
   \<longrightarrow> fst (delete_collection env name w)
         = Inl (protocol_error
                 (''ChromaDB: Failed to delete collection '' @ quote @ name @ quote @ ''. '')
                 status body))
   \<and> (server env (sent (snd (list_vectors env filters list_limit w))) = Response status body
     \<and> status \<noteq> 200
   \<longrightarrow> fst (list_vectors env filters list_limit w)
         = Inl (protocol_error
                 (''ChromaDB: Failed to list vectors from '' @ quote @ collection_name (self w) @ quote
                  @ ''. '')
                 status body))
   \<and> (server env (sent (snd (get_vector env vector_id w))) = Response status body
     \<and> status \<noteq> 200
   \<longrightarrow> fst (get_vector env vector_id w) = Inr None)"
  by (intro conjI)
     (rule create_collection_rejected insert_vectors_rejected search_rejected
        delete_vector_rejected update_vector_rejected list_collections_rejected
        delete_collection_rejected list_vectors_rejected get_vector_rejected)+

theorem protocol_error_surfaced_witness:
  "fst (create_collection (answering [] (Response 500 ''boom'')) ''mem0'' 0 ''cosine'' fresh_world)
     = Inl (protocol_error (''ChromaDB: Failed to create collection '' @ quote @ ''mem0'' @ quote @ ''. '') 500 ''boom'')
   \<and> fst (insert_vectors (answering [] (Response 500 ''boom'')) [[1, 0]] [[]] [''a''] fresh_world)
     = Inl (protocol_error (''ChromaDB: Failed to insert vectors into '' @ quote @ ''mem0'' @ quote @ ''. '') 500 ''boom'')
   \<and> fst (search (answering [] (Response 500 ''boom'')) ''query'' [1, 0] 3 None fresh_world)
     = Inl (protocol_error (''ChromaDB: Failed to search vectors in '' @ quote @ ''mem0'' @ quote @ ''. '') 500 ''boom'')
   \<and> fst (delete_vector (answering [] (Response 500 ''boom'')) ''a'' fresh_world)
     = Inl (protocol_error (''ChromaDB: Failed to delete vector '' @ quote @ ''a'' @ quote @ '' from '' @ quote
              @ ''mem0'' @ quote @ ''. '') 500 ''boom'')
   \<and> fst (update_vector (answering [] (Response 500 ''boom'')) ''a'' (Some [1, 0]) None fresh_world)
     = Inl (protocol_error (''ChromaDB: Failed to update/upsert vector '' @ quote @ ''a'' @ quote @ '' in ''
              @ quote @ ''mem0'' @ quote @ ''. '') 500 ''boom'')
   \<and> fst (list_collections (answering [] (Response 500 ''boom'')) fresh_world)
     = Inl (protocol_error (''ChromaDB: Failed to list collections. '') 500 ''boom'')
   \<and> fst (delete_collection (answering [] (Response 500 ''boom'')) ''mem0'' fresh_world)
     = Inl (protocol_error (''ChromaDB: Failed to delete collection '' @ quote @ ''mem0'' @ quote @ ''. '') 500 ''boom'')
   \<and> fst (list_vectors (answering [] (Response 500 ''boom'')) None (Some 100) fresh_world)
     = Inl (protocol_error (''ChromaDB: Failed to list vectors from '' @ quote @ ''mem0'' @ quote @ ''. '') 500 ''boom'')
   \<and> fst (get_vector (answering [] (Response 500 ''boom'')) ''a'' fresh_world) = Inr None"
  using protocol_error_surfaced [of "answering [] (Response 500 ''boom'')" "''mem0''" 0 "''cosine''" fresh_world 500
      "''boom''" "[[1, 0]]" "[[]]" "[''a'']" "''query''" "[1, 0]" 3 None "''a''" "Some [1, 0]" None
      "Some 100"]
  by (simp add: answering_def fresh_world_def local_store_def)

section \<open>The collection of the store\<close>

text \<open>
  Each operation on vectors sends one request, a \<open>POST\<close> to its path under the active
  collection name (\<open>insert\<close> when its arguments pass the check, \<open>update_vector\<close> when
  there is something to update).
\<close>

lemma insert_vectors_sends:
  "length vectors = length payloads \<and> length payloads = length ids \<and> 0 < length ids
   \<longrightarrow> (\<exists>rq. sent (snd (insert_vectors env vectors payloads ids w)) = sent w @ [rq]
          \<and> req_method rq = ''POST''
          \<and> req_path rq = ''/api/v1/collections/'' @ collection_name (self w) @ ''/add'')"
  by (auto simp: insert_vectors_def requests send_def Let_def)

lemma search_sends:
  "(\<exists>rq. sent (snd (search env query_text vector limit filters w)) = sent w @ [rq]
          \<and> req_method rq = ''POST''
          \<and> req_path rq = ''/api/v1/collections/'' @ collection_name (self w) @ ''/query'')"
  by (auto simp: search_def requests send_def Let_def)

lemma delete_vector_sends:
  "(\<exists>rq. sent (snd (delete_vector env vector_id w)) = sent w @ [rq]
          \<and> req_method rq = ''POST''
          \<and> req_path rq = ''/api/v1/collections/'' @ collection_name (self w) @ ''/delete'')"
  by (auto simp: delete_vector_def requests send_def Let_def)

lemma update_vector_sends:
  "new_vector \<noteq> None \<or> new_payload \<noteq> None
   \<longrightarrow> (\<exists>rq. sent (snd (update_vector env vector_id new_vector new_payload w)) = sent w @ [rq]
          \<and> req_method rq = ''POST''
          \<and> req_path rq = ''/api/v1/collections/'' @ collection_name (self w) @ ''/upsert'')"
  by (auto simp: update_vector_def requests send_def Let_def)

lemma get_vector_sends:
  "(\<exists>rq. sent (snd (get_vector env vector_id w)) = sent w @ [rq]
          \<and> req_method rq = ''POST''
          \<and> req_path rq = ''/api/v1/collections/'' @ collection_name (self w) @ ''/get'')"
  by (auto simp: get_vector_def requests send_def Let_def)

lemma list_vectors_sends:
  "(\<exists>rq. sent (snd (list_vectors env filters list_limit w)) = sent w @ [rq]
          \<and> req_method rq = ''POST''
          \<and> req_path rq = ''/api/v1/collections/'' @ collection_name (self w) @ ''/get'')"
  by (auto simp: list_vectors_def requests send_def Let_def)

text \<open>
  Claim C10. After a call of \<open>create_collection\<close> that returns, the active collection
  name is the name given; the recorded dimension is the size given when that is above
  zero and is unchanged when it is zero; host and port are unchanged. Every operation
  on vectors that follows (\<open>insert\<close>, \<open>search\<close>, \<open>delete_vector\<close>, \<open>update_vector\<close>,
  \<open>get_vector\<close>, \<open>list_vectors\<close>) sends its request, one \<open>POST\<close>, to its path under the
  new name; \<open>insert\<close> does so when its arguments pass the check and \<open>update_vector\<close>
  when there is something to update, the cases in which they send a request at all.
\<close>

theorem create_collection_retargets:
  assumes "fst (create_collection env name vector_size metric w) = Inr ()"
  shows "collection_name (self (snd (create_collection env name vector_size metric w))) = name
    \<and> (0 < vector_size \<longrightarrow>
         embedding_dims (self (snd (create_collection env name vector_size metric w)))
           = Some vector_size)
    \<and> (vector_size = 0 \<longrightarrow>
         embedding_dims (self (snd (create_collection env name vector_size metric w)))
           = embedding_dims (self w))
    \<and> host (self (snd (create_collection env name vector_size metric w))) = host (self w)
    \<and> port (self (snd (create_collection env name vector_size metric w))) = port (self w)
    \<and> (length vectors = length payloads \<and> length payloads = length ids \<and> 0 < length ids
        \<longrightarrow> (\<exists>rq. sent (snd (insert_vectors env vectors payloads ids
                  (snd (create_collection env name vector_size metric w)))) = sent
                  (snd (create_collection env name vector_size metric w)) @ [rq]
               \<and> req_method rq = ''POST''
               \<and> req_path rq = ''/api/v1/collections/'' @ name @ ''/add''))
    \<and> ((\<exists>rq. sent (snd (search env query_text vector limit filters
                  (snd (create_collection env name vector_size metric w)))) = sent
                  (snd (create_collection env name vector_size metric w)) @ [rq]
               \<and> req_method rq = ''POST''
               \<and> req_path rq = ''/api/v1/collections/'' @ name @ ''/query''))
    \<and> ((\<exists>rq. sent (snd (delete_vector env vector_id
                  (snd (create_collection env name vector_size metric w)))) = sent
                  (snd (create_collection env name vector_size metric w)) @ [rq]
               \<and> req_method rq = ''POST''
               \<and> req_path rq = ''/api/v1/collections/'' @ name @ ''/delete''))
    \<and> (new_vector \<noteq> None \<or> new_payload \<noteq> None
        \<longrightarrow> (\<exists>rq. sent (snd (update_vector env vector_id new_vector new_payload
                  (snd (create_collection env name vector_size metric w)))) = sent
                  (snd (create_collection env name vector_size metric w)) @ [rq]
               \<and> req_method rq = ''POST''
               \<and> req_path rq = ''/api/v1/collections/'' @ name @ ''/upsert''))
    \<and> ((\<exists>rq. sent (snd (get_vector env vector_id
                  (snd (create_collection env name vector_size metric w)))) = sent
                  (snd (create_collection env name vector_size metric w)) @ [rq]
               \<and> req_method rq = ''POST''
               \<and> req_path rq = ''/api/v1/collections/'' @ name @ ''/get''))
    \<and> ((\<exists>rq. sent (snd (list_vectors env filters list_limit
                  (snd (create_collection env name vector_size metric w)))) = sent
                  (snd (create_collection env name vector_size metric w)) @ [rq]
               \<and> req_method rq = ''POST''
               \<and> req_path rq = ''/api/v1/collections/'' @ name @ ''/get''))"
proof -
  let ?w' = "snd (create_collection env name vector_size metric w)"
  have name': "collection_name (self ?w') = name"
    using assms
    by (auto simp: create_collection_def requests send_def Let_def split: if_splits)
  have dims: "0 < vector_size \<longrightarrow> embedding_dims (self ?w') = Some vector_size"
    using assms
    by (auto simp: create_collection_def requests send_def Let_def split: if_splits)
  have dims0: "vector_size = 0 \<longrightarrow> embedding_dims (self ?w') = embedding_dims (self w)"
    using assms
    by (auto simp: create_collection_def requests send_def Let_def split: if_splits)
  have h: "host (self ?w') = host (self w)"
    by (auto simp: create_collection_def requests send_def Let_def split: if_splits)
  have p: "port (self ?w') = port (self w)"
    by (auto simp: create_collection_def requests send_def Let_def split: if_splits)
  show ?thesis
    using dims dims0 h p
      insert_vectors_sends [of vectors payloads ids env ?w']
      search_sends [of env query_text vector limit filters ?w']
      delete_vector_sends [of env vector_id ?w']
      update_vector_sends [of new_vector new_payload env vector_id ?w']
      get_vector_sends [of env vector_id ?w']
      list_vectors_sends [of env filters list_limit ?w']
    unfolding name' by (intro conjI) (rule refl, assumption+)
qed

theorem create_collection_retargets_witness:
  "collection_name (self (snd (create_collection (answering [] (Response 201 ''created''))
      ''notes'' 384 ''cosine'' fresh_world))) = ''notes''
   \<and> embedding_dims (self (snd (create_collection (answering [] (Response 201 ''created''))
      ''notes'' 384 ''cosine'' fresh_world))) = Some 384
   \<and> req_path (last (sent (snd (insert_vectors (answering [] (Response 201 ''created''))
         [[1, 0]] [[]] [''v1'']
         (snd (create_collection (answering [] (Response 201 ''created''))
            ''notes'' 384 ''cosine'' fresh_world))))))
        = ''/api/v1/collections/notes/add''
   \<and> req_path (last (sent (snd (update_vector (answering [] (Response 201 ''created''))
         ''v1'' (Some [1, 0]) None
         (snd (create_collection (answering [] (Response 201 ''created''))
            ''notes'' 384 ''cosine'' fresh_world))))))
        = ''/api/v1/collections/notes/upsert''
   \<and> req_path (last (sent (snd (delete_vector (answering [] (Response 201 ''created'')) ''v1''
         (snd (create_collection (answering [] (Response 201 ''created''))
            ''notes'' 384 ''cosine'' fresh_world))))))
        = ''/api/v1/collections/notes/delete''"
proof -
  have returns: "fst (create_collection (answering [] (Response 201 ''created'')) ''notes'' 384 ''cosine''
                   fresh_world) = Inr ()"
    by (simp add: create_collection_def requests send_def answering_def)
  show ?thesis
    using create_collection_retargets [OF returns, where vectors = "[[1, 0]]"
        and payloads = "[[]]" and ids = "[''v1'']" and vector_id = "''v1''"
        and new_vector = "Some [1, 0]" and new_payload = None and query_text = "''query''"
        and vector = "[1, 0]" and limit = 3 and filters = None and list_limit = None]
    by auto
qed

text \<open>
  Claim C7. \<open>reset_collection\<close> sends two requests whatever the service answers: the
  delete of the active collection, then the creation of a collection of the same name
  (with the cosine metric). The object is the same after the call, so the name and the
  recorded dimension are those from before. The call returns exactly when the answer
  to the second request, the creation, has status 201 or 409, also when the delete has
  failed.
\<close>

theorem reset_collection_steps:
  "sent (snd (reset_collection env w))
     = sent w @
       [\<lparr>req_host = host (self w), req_port = port (self w), req_method = ''DELETE'',
         req_path = ''/api/v1/collections/'' @ collection_name (self w),
         req_content = NoContent\<rparr>,
        \<lparr>req_host = host (self w), req_port = port (self w), req_method = ''POST'',
         req_path = ''/api/v1/collections'',
         req_content = Dump (JObject [(''name'', JString (collection_name (self w))),
                         (''metadata'', JObject [(''hnsw:space'', JString ''cosine'')])])\<rparr>]
   \<and> self (snd (reset_collection env w)) = self w
   \<and> (fst (reset_collection env w) = Inr ())
       = (\<not> rejected [201, 409] (server env (sent (snd (reset_collection env w)))))"
  by (cases "embedding_dims (self w)")
     (auto simp: reset_collection_def delete_collection_def create_collection_def requests
        send_def Let_def split: sum.splits exn.splits)

theorem reset_collection_steps_witness:
  "map req_method (sent (snd (reset_collection
      (routed (\<lambda>m. if m = ''DELETE'' then Response 500 ''down'' else Response 201 ''created''))
      fresh_world))) = [''DELETE'', ''POST'']
   \<and> fst (reset_collection
      (routed (\<lambda>m. if m = ''DELETE'' then Response 500 ''down'' else Response 201 ''created''))
      fresh_world) = Inr ()"
  using reset_collection_steps [of
      "routed (\<lambda>m. if m = ''DELETE'' then Response 500 ''down'' else Response 201 ''created'')"
      fresh_world]
  by (simp add: routed_def fresh_world_def local_store_def)

section \<open>Response bodies\<close>

text \<open>
  Claim C9, as the specification states it, fails: a body that is JSON but not of the
  expected shape, here the empty object, makes \<open>search\<close> return the empty list, a
  normal result, and nothing is thrown.
\<close>

theorem malformed_shape_counterexample:
  "fst (search (answering [(''{}'', JObject [])] (Response 200 ''{}'')) ''query'' [1, 0] 3 None
          fresh_world) = Inr []"
  by (simp add: search_def requests send_def answering_def parse_json_def bind_exn_def
        search_results_def)

lemma search_parse_failure:
  "server env (sent (snd (search env query_text vector limit filters w))) = Response 200 body
     \<and> parse env body = Inl msg
   \<longrightarrow> fst (search env query_text vector limit filters w)
         = Inl (codec_error ''ChromaDB: Failed to parse search response JSON: '' msg body)"
  by (auto simp: search_def requests send_def Let_def parse_json_def bind_exn_def codec_error_def)

lemma get_vector_parse_failure:
  "server env (sent (snd (get_vector env vector_id w))) = Response 200 body
     \<and> parse env body = Inl msg
   \<longrightarrow> fst (get_vector env vector_id w)
         = Inl (codec_error (''ChromaDB: Failed to parse get_vector response JSON for id ''
                  @ quote @ vector_id @ quote @ '': '') msg body)"
  by (auto simp: get_vector_def requests send_def Let_def parse_json_def bind_exn_def
        codec_error_def)

lemma list_collections_parse_failure:
  "server env (sent (snd (list_collections env w))) = Response 200 body
     \<and> parse env body = Inl msg
   \<longrightarrow> fst (list_collections env w)
         = Inl (codec_error ''ChromaDB: Failed to parse list_collections response: '' msg body)"
  by (auto simp: list_collections_def requests send_def Let_def parse_json_def bind_exn_def
        codec_error_def)

lemma list_vectors_parse_failure:
  "server env (sent (snd (list_vectors env filters list_limit w))) = Response 200 body
     \<and> parse env body = Inl msg
   \<longrightarrow> fst (list_vectors env filters list_limit w)
         = Inl (codec_error ''ChromaDB: Failed to parse list_vectors response JSON: '' msg body)"
  by (auto simp: list_vectors_def requests send_def Let_def parse_json_def bind_exn_def
        codec_error_def)

lemma search_no_ids:
  "server env (sent (snd (search env query_text vector limit filters w))) = Response 200 body
     \<and> parse env body = Inr j \<and> \<not> contains j ''ids''
   \<longrightarrow> fst (search env query_text vector limit filters w) = Inr []"
  by (auto simp: search_def requests send_def Let_def parse_json_def bind_exn_def
        search_results_def)

lemma get_vector_no_ids:
  "server env (sent (snd (get_vector env vector_id w))) = Response 200 body
     \<and> parse env body = Inr j \<and> \<not> contains j ''ids''
   \<longrightarrow> fst (get_vector env vector_id w) = Inr None"
  by (auto simp: get_vector_def requests send_def Let_def parse_json_def bind_exn_def
        get_vector_item_def)

lemma list_collections_no_array:
  "server env (sent (snd (list_collections env w))) = Response 200 body
     \<and> parse env body = Inr j \<and> \<not> is_array j
   \<longrightarrow> fst (list_collections env w) = Inr []"
  by (cases j)
     (auto simp: list_collections_def requests send_def Let_def parse_json_def bind_exn_def
        collection_names_def)

lemma list_vectors_no_ids:
  "server env (sent (snd (list_vectors env filters list_limit w))) = Response 200 body
     \<and> parse env body = Inr j \<and> \<not> contains j ''ids''
   \<longrightarrow> fst (list_vectors env filters list_limit w) = Inr []"
  by (auto simp: list_vectors_def requests send_def Let_def parse_json_def bind_exn_def
        list_results_def)

text \<open>
  A typed read inside the \<open>try\<close> that throws leaves as a codec error as well. The first
  element of a list that is not a string is where \<open>get<std::vector<std::string>>\<close>
  throws.
\<close>

lemma mapM_exn_non_string:
  "\<not> list_all is_string xs \<Longrightarrow>
   \<exists>x \<in> set xs. \<not> is_string x \<and> mapM_exn get_string xs = Inl (type_must_be ''string'' x)"
proof (induction xs)
  case Nil
  then show ?case by simp
next
  case (Cons y ys)
  show ?case
  proof (cases "is_string y")
    case True
    then obtain t where y: "y = JString t" by (cases y) simp_all
    have "\<not> list_all is_string ys" using Cons.prems True by simp
    then obtain x where "x \<in> set ys" "\<not> is_string x"
      "mapM_exn get_string ys = Inl (type_must_be ''string'' x)"
      using Cons.IH by blast
    then show ?thesis using y by (auto simp: bind_exn_def)
  next
    case False
    then have "get_string y = Inl (type_must_be ''string'' y)" by (cases y) simp_all
    then show ?thesis using False by (auto simp: bind_exn_def)
  qed
qed

lemma search_read_failure:
  "server env (sent (snd (search env query_text vector limit filters w))) = Response 200 body
     \<and> parse env body = Inr j \<and> search_results env j = Inl (json_exception msg)
   \<longrightarrow> fst (search env query_text vector limit filters w)
         = Inl (codec_error ''ChromaDB: Failed to parse search response JSON: '' msg body)"
  by (auto simp: search_def requests send_def Let_def parse_json_def bind_exn_def codec_error_def)

lemma get_vector_read_failure:
  "server env (sent (snd (get_vector env vector_id w))) = Response 200 body
     \<and> parse env body = Inr j \<and> get_vector_item env j = Inl (json_exception msg)
   \<longrightarrow> fst (get_vector env vector_id w)
         = Inl (codec_error (''ChromaDB: Failed to parse get_vector response JSON for id ''
                  @ quote @ vector_id @ quote @ '': '') msg body)"
  by (auto simp: get_vector_def requests send_def Let_def parse_json_def bind_exn_def codec_error_def)

lemma list_vectors_read_failure:
  "server env (sent (snd (list_vectors env filters list_limit w))) = Response 200 body
     \<and> parse env body = Inr j \<and> list_results env j = Inl (json_exception msg)
   \<longrightarrow> fst (list_vectors env filters list_limit w)
         = Inl (codec_error ''ChromaDB: Failed to parse list_vectors response JSON: '' msg body)"
  by (auto simp: list_vectors_def requests send_def Let_def parse_json_def bind_exn_def codec_error_def)

lemma search_non_string_id:
  "server env (sent (snd (search env query_text vector limit filters w))) = Response 200 body
     \<and> parse env body = Inr j \<and> contains j ''ids''
     \<and> at_key j ''ids'' = JArray (JArray (first_id # other_ids) # more_ids)
     \<and> \<not> is_string first_id
     \<and> contains j ''distances'' \<and> is_array (at_key j ''distances'')
     \<and> \<not> json_empty (at_key j ''distances'')
     \<and> contains j ''metadatas'' \<and> is_array (at_key j ''metadatas'')
     \<and> \<not> json_empty (at_key j ''metadatas'')
   \<longrightarrow> fst (search env query_text vector limit filters w)
         = Inl (codec_error ''ChromaDB: Failed to parse search response JSON: '' (what (type_must_be ''string'' first_id)) body)"
proof (intro impI, elim conjE)
  assume res: "server env (sent (snd (search env query_text vector limit filters w)))
                 = Response 200 body"
    and p: "parse env body = Inr j"
    and g: "contains j ''ids''"
      "at_key j ''ids'' = JArray (JArray (first_id # other_ids) # more_ids)"
      "contains j ''distances''" "is_array (at_key j ''distances'')"
      "\<not> json_empty (at_key j ''distances'')"
      "contains j ''metadatas''" "is_array (at_key j ''metadatas'')"
      "\<not> json_empty (at_key j ''metadatas'')"
    and n: "\<not> is_string first_id"
  have first: "get_string first_id = Inl (type_must_be ''string'' first_id)"
    using n by (cases first_id) simp_all
  have "search_results env j = Inl (type_must_be ''string'' first_id)"
    using g first
    by (simp add: search_results_def json_empty_def search_item_def bind_exn_def upt_rec)
  then have "search_results env j
               = Inl (json_exception (what (type_must_be ''string'' first_id)))"
    by (simp add: type_must_be_def)
  then show "fst (search env query_text vector limit filters w)
      = Inl (codec_error ''ChromaDB: Failed to parse search response JSON: ''
              (what (type_must_be ''string'' first_id)) body)"
    using res p search_read_failure [of env query_text vector limit filters w body j
        "what (type_must_be ''string'' first_id)"]
    by simp
qed

lemma get_vector_non_string_id:
  "server env (sent (snd (get_vector env vector_id w))) = Response 200 body
     \<and> parse env body = Inr j \<and> contains j ''ids'' \<and> at_key j ''ids'' = JArray id_list
     \<and> \<not> list_all is_string id_list
   \<longrightarrow> (\<exists>x \<in> set id_list. \<not> is_string x
         \<and> fst (get_vector env vector_id w)
         = Inl (codec_error (''ChromaDB: Failed to parse get_vector response JSON for id ''
                  @ quote @ vector_id @ quote @ '': '') (what (type_must_be ''string'' x)) body))"
proof (intro impI, elim conjE)
  assume res: "server env (sent (snd (get_vector env vector_id w))) = Response 200 body"
    and p: "parse env body = Inr j"
    and g: "contains j ''ids''" "at_key j ''ids'' = JArray id_list"
    and n: "\<not> list_all is_string id_list"
  obtain x where x: "x \<in> set id_list" "\<not> is_string x"
    and read: "mapM_exn get_string id_list = Inl (type_must_be ''string'' x)"
    using mapM_exn_non_string [OF n] by blast
  have "get_vector_item env j = Inl (json_exception (what (type_must_be ''string'' x)))"
    using g read by (simp add: get_vector_item_def bind_exn_def type_must_be_def)
  then have "fst (get_vector env vector_id w)
      = Inl (codec_error (''ChromaDB: Failed to parse get_vector response JSON for id ''
                  @ quote @ vector_id @ quote @ '': '')
              (what (type_must_be ''string'' x)) body)"
    using res p get_vector_read_failure [of env vector_id w body j
        "what (type_must_be ''string'' x)"]
    by simp
  then show "\<exists>x \<in> set id_list. \<not> is_string x
      \<and> fst (get_vector env vector_id w)
         = Inl (codec_error (''ChromaDB: Failed to parse get_vector response JSON for id ''
                  @ quote @ vector_id @ quote @ '': '')
                 (what (type_must_be ''string'' x)) body)"
    using x by blast
qed

lemma list_vectors_non_string_id:
  "server env (sent (snd (list_vectors env filters list_limit w))) = Response 200 body
     \<and> parse env body = Inr j \<and> contains j ''ids'' \<and> at_key j ''ids'' = JArray id_list
     \<and> \<not> list_all is_string id_list
   \<longrightarrow> (\<exists>x \<in> set id_list. \<not> is_string x
         \<and> fst (list_vectors env filters list_limit w)
         = Inl (codec_error ''ChromaDB: Failed to parse list_vectors response JSON: '' (what (type_must_be ''string'' x)) body))"
proof (intro impI, elim conjE)
  assume res: "server env (sent (snd (list_vectors env filters list_limit w)))
                 = Response 200 body"
    and p: "parse env body = Inr j"
    and g: "contains j ''ids''" "at_key j ''ids'' = JArray id_list"
    and n: "\<not> list_all is_string id_list"
  obtain x where x: "x \<in> set id_list" "\<not> is_string x"
    and read: "mapM_exn get_string id_list = Inl (type_must_be ''string'' x)"
    using mapM_exn_non_string [OF n] by blast
  have "list_results env j = Inl (json_exception (what (type_must_be ''string'' x)))"
    using g read by (simp add: list_results_def bind_exn_def type_must_be_def)
  then have "fst (list_vectors env filters list_limit w)
      = Inl (codec_error ''ChromaDB: Failed to parse list_vectors response JSON: ''
              (what (type_must_be ''string'' x)) body)"
    using res p list_vectors_read_failure [of env filters list_limit w body j
        "what (type_must_be ''string'' x)"]
    by simp
  then show "\<exists>x \<in> set id_list. \<not> is_string x
      \<and> fst (list_vectors env filters list_limit w)
         = Inl (codec_error ''ChromaDB: Failed to parse list_vectors response JSON: ''
                 (what (type_must_be ''string'' x)) body)"
    using x by blast
qed

text \<open>
  Claim C9, amended. For \<open>search\<close>, \<open>get_vector\<close>, \<open>list_collections\<close> and \<open>list_vectors\<close>,
  a body of a 200 response that the JSON parser rejects makes the operation throw a
  codec error that holds the parser's message and the body, unchanged. So does a body
  that parses and on which a read inside the \<open>try\<close> throws an exception of the JSON
  library, with that exception's message: for one, an \<open>ids\<close> array (for \<open>search\<close>, its
  first element) that holds a value other than a string. Neither failure is ever turned
  into a normal result. A body that is JSON but has no member \<open>ids\<close> (for
  \<open>list_collections\<close>: that is not an array) is no error: it gives the empty result, and
  for \<open>get_vector\<close> the empty option.
\<close>

theorem parse_failure_surfaced:
  "(server env (sent (snd (search env query_text vector limit filters w))) = Response 200 body
     \<and> parse env body = Inl msg
   \<longrightarrow> fst (search env query_text vector limit filters w)
         = Inl (codec_error ''ChromaDB: Failed to parse search response JSON: '' msg body))
   \<and> (server env (sent (snd (get_vector env vector_id w))) = Response 200 body
     \<and> parse env body = Inl msg
   \<longrightarrow> fst (get_vector env vector_id w)
         = Inl (codec_error (''ChromaDB: Failed to parse get_vector response JSON for id ''
                  @ quote @ vector_id @ quote @ '': '') msg body))
   \<and> (server env (sent (snd (list_collections env w))) = Response 200 body
     \<and> parse env body = Inl msg
   \<longrightarrow> fst (list_collections env w)
         = Inl (codec_error ''ChromaDB: Failed to parse list_collections response: '' msg body))
   \<and> (server env (sent (snd (list_vectors env filters list_limit w))) = Response 200 body
     \<and> parse env body = Inl msg
   \<longrightarrow> fst (list_vectors env filters list_limit w)
         = Inl (codec_error ''ChromaDB: Failed to parse list_vectors response JSON: '' msg body))
   \<and> (server env (sent (snd (search env query_text vector limit filters w))) = Response 200 body
     \<and> parse env body = Inr j \<and> search_results env j = Inl (json_exception msg)
   \<longrightarrow> fst (search env query_text vector limit filters w)
         = Inl (codec_error ''ChromaDB: Failed to parse search response JSON: '' msg body))
   \<and> (server env (sent (snd (get_vector env vector_id w))) = Response 200 body
     \<and> parse env body = Inr j \<and> get_vector_item env j = Inl (json_exception msg)
   \<longrightarrow> fst (get_vector env vector_id w)
         = Inl (codec_error (''ChromaDB: Failed to parse get_vector response JSON for id ''
                  @ quote @ vector_id @ quote @ '': '') msg body))
   \<and> (server env (sent (snd (list_vectors env filters list_limit w))) = Response 200 body
     \<and> parse env body = Inr j \<and> list_results env j = Inl (json_exception msg)
   \<longrightarrow> fst (list_vectors env filters list_limit w)
         = Inl (codec_error ''ChromaDB: Failed to parse list_vectors response JSON: '' msg body))
   \<and> (server env (sent (snd (search env query_text vector limit filters w))) = Response 200 body
     \<and> parse env body = Inr j \<and> contains j ''ids''
     \<and> at_key j ''ids'' = JArray (JArray (first_id # other_ids) # more_ids)
     \<and> \<not> is_string first_id
     \<and> contains j ''distances'' \<and> is_array (at_key j ''distances'')
     \<and> \<not> json_empty (at_key j ''distances'')
     \<and> contains j ''metadatas'' \<and> is_array (at_key j ''metadatas'')
     \<and> \<not> json_empty (at_key j ''metadatas'')
   \<longrightarrow> fst (search env query_text vector limit filters w)
         = Inl (codec_error ''ChromaDB: Failed to parse search response JSON: '' (what (type_must_be ''string'' first_id)) body))
   \<and> (server env (sent (snd (get_vector env vector_id w))) = Response 200 body
     \<and> parse env body = Inr j \<and> contains j ''ids'' \<and> at_key j ''ids'' = JArray id_list
     \<and> \<not> list_all is_string id_list
   \<longrightarrow> (\<exists>x \<in> set id_list. \<not> is_string x
         \<and> fst (get_vector env vector_id w)
         = Inl (codec_error (''ChromaDB: Failed to parse get_vector response JSON for id ''
                  @ quote @ vector_id @ quote @ '': '') (what (type_must_be ''string'' x)) body)))
   \<and> (server env (sent (snd (list_vectors env filters list_limit w))) = Response 200 body
     \<and> parse env body = Inr j \<and> contains j ''ids'' \<and> at_key j ''ids'' = JArray id_list
     \<and> \<not> list_all is_string id_list
   \<longrightarrow> (\<exists>x \<in> set id_list. \<not> is_string x
         \<and> fst (list_vectors env filters list_limit w)
         = Inl (codec_error ''ChromaDB: Failed to parse list_vectors response JSON: '' (what (type_must_be ''string'' x)) body)))
   \<and> (server env (sent (snd (search env query_text vector limit filters w))) = Response 200 body
     \<and> parse env body = Inr j \<and> \<not> contains j ''ids''
   \<longrightarrow> fst (search env query_text vector limit filters w) = Inr [])
   \<and> (server env (sent (snd (get_vector env vector_id w))) = Response 200 body
     \<and> parse env body = Inr j \<and> \<not> contains j ''ids''
   \<longrightarrow> fst (get_vector env vector_id w) = Inr None)
   \<and> (server env (sent (snd (list_collections env w))) = Response 200 body
     \<and> parse env body = Inr j \<and> \<not> is_array j
   \<longrightarrow> fst (list_collections env w) = Inr [])
   \<and> (server env (sent (snd (list_vectors env filters list_limit w))) = Response 200 body
     \<and> parse env body = Inr j \<and> \<not> contains j ''ids''
   \<longrightarrow> fst (list_vectors env filters list_limit w) = Inr [])"
  by (intro conjI)
     (rule search_parse_failure get_vector_parse_failure list_collections_parse_failure
        list_vectors_parse_failure search_read_failure get_vector_read_failure
        list_vectors_read_failure search_non_string_id get_vector_non_string_id
        list_vectors_non_string_id search_no_ids get_vector_no_ids
        list_collections_no_array list_vectors_no_ids)+

theorem parse_failure_surfaced_witness:
  "fst (search (answering [] (Response 200 ''<html>'')) ''query'' [1, 0] 3 None fresh_world)
     = Inl (codec_error ''ChromaDB: Failed to parse search response JSON: ''
             ''[json.exception.parse_error.101] parse error'' ''<html>'')
   \<and> fst (get_vector (answering [] (Response 200 ''<html>'')) ''v1'' fresh_world)
     = Inl (codec_error (''ChromaDB: Failed to parse get_vector response JSON for id ''
              @ quote @ ''v1'' @ quote @ '': '')
             ''[json.exception.parse_error.101] parse error'' ''<html>'')
   \<and> fst (list_collections (answering [] (Response 200 ''<html>'')) fresh_world)
     = Inl (codec_error ''ChromaDB: Failed to parse list_collections response: ''
             ''[json.exception.parse_error.101] parse error'' ''<html>'')
   \<and> fst (list_vectors (answering [] (Response 200 ''<html>'')) None (Some 100) fresh_world)
     = Inl (codec_error ''ChromaDB: Failed to parse list_vectors response JSON: ''
             ''[json.exception.parse_error.101] parse error'' ''<html>'')
   \<and> fst (search (answering [(''reply'', query_reply_number_id)] (Response 200 ''reply''))
            ''query'' [1, 0] 3 None fresh_world)
     = Inl (codec_error ''ChromaDB: Failed to parse search response JSON: ''
             ''[json.exception.type_error.302] type must be string, but is number'' ''reply'')
   \<and> fst (get_vector (answering [(''reply'', get_reply_number_id)] (Response 200 ''reply''))
            ''v1'' fresh_world)
     = Inl (codec_error (''ChromaDB: Failed to parse get_vector response JSON for id ''
              @ quote @ ''v1'' @ quote @ '': '')
             ''[json.exception.type_error.302] type must be string, but is number'' ''reply'')
   \<and> fst (list_vectors (answering [(''reply'', get_reply_number_id)] (Response 200 ''reply''))
            None (Some 100) fresh_world)
     = Inl (codec_error ''ChromaDB: Failed to parse list_vectors response JSON: ''
             ''[json.exception.type_error.302] type must be string, but is number'' ''reply'')
   \<and> fst (get_vector (answering [(''{}'', JObject [])] (Response 200 ''{}'')) ''v1'' fresh_world) = Inr None
   \<and> fst (list_collections (answering [(''{}'', JObject [])] (Response 200 ''{}'')) fresh_world) = Inr []
   \<and> fst (list_vectors (answering [(''{}'', JObject [])] (Response 200 ''{}'')) None (Some 100) fresh_world) = Inr []"
proof -
  note rejected_by_parser = parse_failure_surfaced [where env = "answering [] (Response 200 ''<html>'')"
      and query_text = "''query''" and vector = "[1, 0]" and limit = 3 and filters = None
      and w = fresh_world and body = "''<html>''" and vector_id = "''v1''"
      and list_limit = "Some 100" and msg = "''[json.exception.parse_error.101] parse error''"]
  note number_id = parse_failure_surfaced [where env = "answering [(''reply'', get_reply_number_id)] (Response 200 ''reply'')"
      and filters = None and w = fresh_world and body = "''reply''" and vector_id = "''v1''"
      and list_limit = "Some 100" and j = get_reply_number_id and id_list = "[JUnsigned 7]"
      and msg = "''[json.exception.type_error.302] type must be string, but is number''"]
  note number_id_query = parse_failure_surfaced [where env = "answering [(''reply'', query_reply_number_id)] (Response 200 ''reply'')"
      and query_text = "''query''" and vector = "[1, 0]" and limit = 3 and filters = None
      and w = fresh_world and body = "''reply''" and j = query_reply_number_id
      and first_id = "JUnsigned 7" and other_ids = "[]" and more_ids = "[]"
      and msg = "''[json.exception.type_error.302] type must be string, but is number''"]
  note no_ids = parse_failure_surfaced [where env = "answering [(''{}'', JObject [])] (Response 200 ''{}'')"
      and filters = None and w = fresh_world and body = "''{}''" and vector_id = "''v1''"
      and list_limit = "Some 100" and j = "JObject []"]
  have a: "fst (search (answering [] (Response 200 ''<html>'')) ''query'' [1, 0] 3 None fresh_world)
     = Inl (codec_error ''ChromaDB: Failed to parse search response JSON: ''
             ''[json.exception.parse_error.101] parse error'' ''<html>'')
   \<and> fst (get_vector (answering [] (Response 200 ''<html>'')) ''v1'' fresh_world)
     = Inl (codec_error (''ChromaDB: Failed to parse get_vector response JSON for id ''
              @ quote @ ''v1'' @ quote @ '': '')
             ''[json.exception.parse_error.101] parse error'' ''<html>'')
   \<and> fst (list_collections (answering [] (Response 200 ''<html>'')) fresh_world)
     = Inl (codec_error ''ChromaDB: Failed to parse list_collections response: ''
             ''[json.exception.parse_error.101] parse error'' ''<html>'')
   \<and> fst (list_vectors (answering [] (Response 200 ''<html>'')) None (Some 100) fresh_world)
     = Inl (codec_error ''ChromaDB: Failed to parse list_vectors response JSON: ''
             ''[json.exception.parse_error.101] parse error'' ''<html>'')"
    using rejected_by_parser by (simp add: answering_def)
  have b: "fst (get_vector (answering [(''reply'', get_reply_number_id)] (Response 200 ''reply''))
            ''v1'' fresh_world)
     = Inl (codec_error (''ChromaDB: Failed to parse get_vector response JSON for id ''
              @ quote @ ''v1'' @ quote @ '': '')
             ''[json.exception.type_error.302] type must be string, but is number'' ''reply'')
   \<and> fst (list_vectors (answering [(''reply'', get_reply_number_id)] (Response 200 ''reply''))
            None (Some 100) fresh_world)
     = Inl (codec_error ''ChromaDB: Failed to parse list_vectors response JSON: ''
             ''[json.exception.type_error.302] type must be string, but is number'' ''reply'')"
    using number_id
    by (simp add: answering_def get_reply_number_id_def type_must_be_def)
  have c: "fst (search (answering [(''reply'', query_reply_number_id)] (Response 200 ''reply''))
            ''query'' [1, 0] 3 None fresh_world)
     = Inl (codec_error ''ChromaDB: Failed to parse search response JSON: ''
             ''[json.exception.type_error.302] type must be string, but is number'' ''reply'')"
    using number_id_query
    by (simp add: answering_def query_reply_number_id_def type_must_be_def json_empty_def)
  have d: "fst (get_vector (answering [(''{}'', JObject [])] (Response 200 ''{}'')) ''v1'' fresh_world) = Inr None
   \<and> fst (list_collections (answering [(''{}'', JObject [])] (Response 200 ''{}'')) fresh_world) = Inr []
   \<and> fst (list_vectors (answering [(''{}'', JObject [])] (Response 200 ''{}'')) None (Some 100) fresh_world) = Inr []"
    using no_ids by (simp add: answering_def)
  show ?thesis using a b c d by simp
qed

section \<open>Reading records from a response\<close>


lemma mapM_exn_numbers:
  "list_all is_number xs \<Longrightarrow> \<exists>v. mapM_exn (get_float c) xs = Inr v"
proof (induction xs)
  case Nil
  then show ?case by simp
next
  case (Cons x xs)
  then obtain v where v: "mapM_exn (get_float c) xs = Inr v" by auto
  have "is_number x" using Cons.prems by simp
  then obtain y where "get_float c x = Inr y" by (cases x) auto
  then show ?case using v by (simp add: bind_exn_def)
qed

lemma get_vector_float_numbers:
  "is_array e \<Longrightarrow> numbers_only e \<Longrightarrow> \<exists>v. get_vector_float c e = Inr v"
  by (cases e) (auto dest: mapM_exn_numbers)



lemma mapM_exn_each:
  "(\<And>x. x \<in> set xs \<Longrightarrow> \<exists>y. f x = Inr y \<and> P x y) \<Longrightarrow>
   \<exists>ys. mapM_exn f xs = Inr ys \<and> list_all2 P xs ys"
proof (induction xs)
  case Nil
  then show ?case by simp
next
  case (Cons x xs)
  obtain y where y: "f x = Inr y" "P x y" using Cons.prems by auto
  obtain ys where ys: "mapM_exn f xs = Inr ys" "list_all2 P xs ys"
    using Cons.IH Cons.prems by auto
  show ?case using y ys by (simp add: bind_exn_def)
qed

lemma list_all2_map_nth:
  assumes h: "list_all2 (\<lambda>i y. g y = xs ! i) [0..<length xs] ys"
  shows "map g ys = xs"
proof (rule nth_equalityI)
  have len: "length ys = length xs" using h by (auto dest: list_all2_lengthD)
  show "length (map g ys) = length xs" using len by simp
  fix i assume "i < length (map g ys)"
  then have i: "i < length xs" using len by simp
  then have "g (ys ! i) = xs ! ([0..<length xs] ! i)"
    using h len by (auto dest: list_all2_nthD)
  then show "map g ys ! i = xs ! i" using i len by simp
qed

lemma search_item_well_formed:
  assumes "i < length ids" and "length dists = length ids" and "length metas = length ids"
    and "list_all numbers_only embs"
  shows "\<exists>item. search_item env (JArray (map JString ids)) (JArray (map JFloat dists))
             (JArray metas) (JArray embs) i = Inr item
           \<and> hit_id item = ids ! i \<and> score item = dists ! i
           \<and> hit_payload item = deserialize_payload (metas ! i)"
proof (cases "i < length embs \<and> is_array (embs ! i)")
  case True
  then have "numbers_only (embs ! i)" using assms(4) by (simp add: list_all_length)
  then obtain v where "get_vector_float (conv env) (embs ! i) = Inr v"
    using True get_vector_float_numbers by blast
  then show ?thesis using True assms(1-3) by (simp add: search_item_def bind_exn_def)
next
  case False
  then show ?thesis using assms(1-3) by (auto simp: search_item_def bind_exn_def)
qed

text \<open>
  Claim C5, as the specification states it, fails: \<open>search\<close> neither cuts the results
  at \<open>limit\<close> nor sorts them. For a response of the expected shape that holds two
  results, the farther one first, a search with limit 1 returns both, in that order.
\<close>

theorem search_limit_order_counterexample:
  "fst (search (answering [(''reply'', query_reply_unsorted)] (Response 200 ''reply''))
          ''query'' [1, 0] 1 None fresh_world)
     = Inr [\<lparr>hit_id = ''a'', score = 1/2, hit_payload = [], hit_vector = []\<rparr>,
            \<lparr>hit_id = ''b'', score = 1/10, hit_payload = [], hit_vector = []\<rparr>]"
  by (simp add: search_def requests send_def answering_def parse_json_def bind_exn_def
        search_results_def search_item_def embedding_list_def json_empty_def
        query_reply_unsorted_def upt_rec)

text \<open>
  Claim C5, amended. For every query vector, limit and response of the expected shape
  (the first elements of \<open>ids\<close>, \<open>distances\<close> and \<open>metadatas\<close> are arrays of one length,
  of strings, of numbers and of metadata, and the embeddings, where present, are arrays
  of numbers), \<open>search\<close> returns one result for each entry of the first element of
  \<open>ids\<close>, in the order of the response, with the distance of the response as score and
  the decoded metadata as payload. So the results are at most \<open>limit\<close> and ascending
  by score when, and only as far as, the response is.
\<close>

theorem search_passes_results_through:
  fixes dists :: "('d :: linorder) list"
  assumes "server env (sent (snd (search env query_text vector limit filters w)))
             = Response 200 body"
    and "parse env body = Inr j"
    and "contains j ''ids''"
    and "at_key j ''ids'' = JArray (JArray (map JString ids) # more_ids)"
    and "contains j ''distances''"
    and "at_key j ''distances'' = JArray (JArray (map JFloat dists) # more_dists)"
    and "contains j ''metadatas''"
    and "at_key j ''metadatas'' = JArray (JArray metas # more_metas)"
    and "embedding_list j = JArray embs" and "list_all numbers_only embs"
    and "length dists = length ids" and "length metas = length ids"
  shows "\<exists>results. fst (search env query_text vector limit filters w) = Inr results
           \<and> map hit_id results = ids \<and> map score results = dists
           \<and> map hit_payload results = map deserialize_payload metas
           \<and> (int (length ids) \<le> limit \<longrightarrow> int (length results) \<le> limit)
           \<and> (sorted dists \<longrightarrow> sorted (map score results))"
proof -
  have run: "fst (search env query_text vector limit filters w)
      = catch_json_exception ''ChromaDB: Failed to parse search response JSON: '' body
          (search_results env j)"
    using assms(1,2)
    by (auto simp: search_def requests send_def Let_def parse_json_def bind_exn_def)
  have loop: "search_results env j
      = mapM_exn (search_item env (JArray (map JString ids)) (JArray (map JFloat dists))
                   (JArray metas) (JArray embs)) [0..<length ids]"
    using assms(3-9) by (simp add: search_results_def json_empty_def)
  have "\<exists>item. search_item env (JArray (map JString ids)) (JArray (map JFloat dists))
             (JArray metas) (JArray embs) i = Inr item
           \<and> (hit_id item = ids ! i \<and> score item = dists ! i
           \<and> hit_payload item = map deserialize_payload metas ! i)"
    if "i \<in> set [0..<length ids]" for i
    using search_item_well_formed [OF _ assms(11,12,10), of i env] that assms(12) by simp
  then obtain results where
    res: "search_results env j = Inr results"
    and all: "list_all2 (\<lambda>i item. hit_id item = ids ! i \<and> score item = dists ! i
                \<and> hit_payload item = map deserialize_payload metas ! i) [0..<length ids] results"
    unfolding loop
    using mapM_exn_each [of "[0..<length ids]" "search_item env (JArray (map JString ids))
        (JArray (map JFloat dists)) (JArray metas) (JArray embs)"
        "\<lambda>i item. hit_id item = ids ! i \<and> score item = dists ! i
                \<and> hit_payload item = map deserialize_payload metas ! i"]
    by blast
  have ids: "map hit_id results = ids"
    using all by (intro list_all2_map_nth) (auto elim: list_all2_mono)
  have ds: "map score results = dists"
    using all assms(11) by (intro list_all2_map_nth) (auto elim: list_all2_mono)
  have ms: "map hit_payload results = map deserialize_payload metas"
    using all assms(12) by (intro list_all2_map_nth) (auto elim: list_all2_mono)
  have len: "length results = length ids" using ids by (metis length_map)
  show ?thesis
    unfolding run res using ids ds ms len by simp
qed

theorem search_passes_results_through_witness:
  "map hit_id (projr (fst (search
      (answering [(''reply'', query_reply_sorted)] (Response 200 ''reply''))
      ''query'' [1, 0] 3 None fresh_world))) = [''a'', ''b'', ''c'']
   \<and> map score (projr (fst (search
      (answering [(''reply'', query_reply_sorted)] (Response 200 ''reply''))
      ''query'' [1, 0] 3 None fresh_world))) = [0, 1/10, 1/2]"
  using search_passes_results_through [of
      "answering [(''reply'', query_reply_sorted)] (Response 200 ''reply'')"
      "''query''" "[1, 0]" 3 None fresh_world "''reply''" query_reply_sorted
      "[''a'', ''b'', ''c'']" "[]" "[0, 1/10, 1/2]" "[]" "[JNull, JNull, JNull]" "[]" "[]"]
  by (auto simp: answering_def query_reply_sorted_def embedding_list_def)

end
